theory Spec2Isabelle
  imports Main "HOL-Library.Monad_Syntax"
begin

section \<open>JavaScript values\<close>

text \<open>
  The renderers of \<^verbatim>\<open>src/tables.js\<close> read plain data trees (the parser's output) and
  produce text. A node is a JavaScript value: \<open>undefined\<close>, \<open>null\<close>, a boolean, a number,
  a string, an array, or a plain object. Objects are association lists from property
  names to values (the first binding of a name is the property). Numbers are the
  integral ones that JavaScript prints as plain decimal digits; strings are over ASCII.
  \<open>Native k\<close> is the built-in method \<open>k\<close> of \<open>Array.prototype\<close>: the only non-data value
  a property read on a data tree can return.
\<close>

datatype jsval =
    Undefined
  | Null
  | Bool bool
  | Num int
  | Str string
  | Arr "jsval list"
  | Obj "(string \<times> jsval) list"
  | Native string

text \<open>An exception raised by the JavaScript code is the value \<open>None\<close>.\<close>

type_synonym 'a raises = "'a option"

text \<open>ToBoolean: what \<^verbatim>\<open>if (v)\<close>, \<^verbatim>\<open>!v\<close>, \<^verbatim>\<open>a && b\<close> and \<^verbatim>\<open>a || b\<close> test.\<close>

fun truthy :: "jsval \<Rightarrow> bool" where
  "truthy Undefined = False"
| "truthy Null = False"
| "truthy (Bool b) = b"
| "truthy (Num n) = (n \<noteq> 0)"
| "truthy (Str s) = (s \<noteq> [])"
| "truthy (Arr xs) = True"
| "truthy (Obj kv) = True"
| "truthy (Native k) = True"

fun nullish :: "jsval \<Rightarrow> bool" where
  "nullish Undefined = True"
| "nullish Null = True"
| "nullish v = False"

fun isArray :: "jsval \<Rightarrow> bool" where
  "isArray (Arr xs) = True"
| "isArray v = False"

fun isString :: "jsval \<Rightarrow> bool" where
  "isString (Str s) = True"
| "isString v = False"

text \<open>
  \<open>getp v k\<close> is the property \<open>k\<close> of a value that is neither \<open>undefined\<close> nor \<open>null\<close>, for
  the property names this module reads. Of these names an array has \<open>join\<close> and \<open>values\<close>
  (methods of its prototype); booleans, numbers and strings have none.
  \<open>propOf\<close> is the property read \<^verbatim>\<open>v.k\<close> (and the destructuring \<^verbatim>\<open>const { k } = v\<close>), which raises
  a TypeError on \<open>undefined\<close> and \<open>null\<close>.
\<close>

fun getp :: "jsval \<Rightarrow> string \<Rightarrow> jsval" where
  "getp (Obj kv) k = (case map_of kv k of Some v \<Rightarrow> v | None \<Rightarrow> Undefined)"
| "getp (Arr xs) k = (if k = ''join'' \<or> k = ''values'' then Native k else Undefined)"
| "getp v k = Undefined"

definition propOf :: "jsval \<Rightarrow> string \<Rightarrow> jsval raises" where
  "propOf v k = (if nullish v then None else Some (getp v k))"

subsection \<open>Strings\<close>

fun intercalate :: "string \<Rightarrow> string list \<Rightarrow> string" where
  "intercalate sep [] = []"
| "intercalate sep [s] = s"
| "intercalate sep (s # t # ts) = s @ sep @ intercalate sep (t # ts)"

function show_nat :: "nat \<Rightarrow> string" where
  "show_nat n =
     (if n < 10 then [''0123456789'' ! n]
      else show_nat (n div 10) @ [''0123456789'' ! (n mod 10)])"
  by pat_completeness auto
termination
  by (relation "measure (\<lambda>n. n)") auto

definition show_int :: "int \<Rightarrow> string" where
  "show_int i = (if i < 0 then CHR ''-'' # show_nat (nat (- i)) else show_nat (nat i))"

text \<open>
  ToString, as a template literal \<^verbatim>\<open>`${v}`\<close> applies it. An array prints its elements
  separated by commas, \<open>undefined\<close> and \<open>null\<close> elements as nothing; a plain object prints
  \<^verbatim>\<open>[object Object]\<close>.
\<close>

fun toStr :: "jsval \<Rightarrow> string" where
  "toStr Undefined = ''undefined''"
| "toStr Null = ''null''"
| "toStr (Bool b) = (if b then ''true'' else ''false'')"
| "toStr (Num n) = show_int n"
| "toStr (Str s) = s"
| "toStr (Arr xs) = intercalate '','' (map (\<lambda>v. if nullish v then [] else toStr v) xs)"
| "toStr (Obj kv) = ''[object Object]''"
| "toStr (Native k) = ''function '' @ k @ ''() { [native code] }''"

text \<open>\<^verbatim>\<open>xs.join(sep)\<close> on an array.\<close>

definition js_join :: "string \<Rightarrow> jsval list \<Rightarrow> string" where
  "js_join sep xs = intercalate sep (map (\<lambda>v. if nullish v then [] else toStr v) xs)"

text \<open>\<^verbatim>\<open>v.join(sep)\<close> on any value: only an array has the method.\<close>

definition call_join :: "jsval \<Rightarrow> string \<Rightarrow> jsval raises" where
  "call_join v sep = (case v of Arr xs \<Rightarrow> Some (Str (js_join sep xs)) | _ \<Rightarrow> None)"

text \<open>
  \<^verbatim>\<open>s.toUpperCase()\<close> and \<^verbatim>\<open>s.toLowerCase()\<close>: only a string has the methods; on the ASCII
  letters they exchange the two cases, and they leave every other ASCII character.
\<close>

definition upper_char :: "char \<Rightarrow> char" where
  "upper_char c =
     (case map_of (zip ''abcdefghijklmnopqrstuvwxyz'' ''ABCDEFGHIJKLMNOPQRSTUVWXYZ'') c of
        Some u \<Rightarrow> u | None \<Rightarrow> c)"

definition lower_char :: "char \<Rightarrow> char" where
  "lower_char c =
     (case map_of (zip ''ABCDEFGHIJKLMNOPQRSTUVWXYZ'' ''abcdefghijklmnopqrstuvwxyz'') c of
        Some l \<Rightarrow> l | None \<Rightarrow> c)"

definition upper :: "string \<Rightarrow> string" where
  "upper s = map upper_char s"

definition lower :: "string \<Rightarrow> string" where
  "lower s = map lower_char s"

definition toUpperCase :: "jsval \<Rightarrow> jsval raises" where
  "toUpperCase v = (case v of Str s \<Rightarrow> Some (Str (upper s)) | _ \<Rightarrow> None)"

definition toLowerCase :: "jsval \<Rightarrow> jsval raises" where
  "toLowerCase v = (case v of Str s \<Rightarrow> Some (Str (lower s)) | _ \<Rightarrow> None)"

text \<open>\<^verbatim>\<open>s.split('(')\<close> on a string: the pieces between the separators, at least one.\<close>

fun split_on :: "char \<Rightarrow> string \<Rightarrow> string list" where
  "split_on c [] = [[]]"
| "split_on c (x # xs) =
     (if x = c then [] # split_on c xs
      else (case split_on c xs of p # ps \<Rightarrow> (x # p) # ps | [] \<Rightarrow> [[x]]))"

subsection \<open>Arrays\<close>

text \<open>
  \<^verbatim>\<open>v.map(f)\<close>: the callback runs on the elements from left to right, and the first
  exception it raises ends the call. Only an array has the method.
\<close>

fun traverse :: "('a \<Rightarrow> 'b raises) \<Rightarrow> 'a list \<Rightarrow> 'b list raises" where
  "traverse f [] = Some []"
| "traverse f (x # xs) = do { y \<leftarrow> f x; ys \<leftarrow> traverse f xs; Some (y # ys) }"

definition js_map :: "(jsval \<Rightarrow> jsval raises) \<Rightarrow> jsval \<Rightarrow> jsval list raises" where
  "js_map f v = (case v of Arr xs \<Rightarrow> traverse f xs | _ \<Rightarrow> None)"

section \<open>The collaborators\<close>

text \<open>
  \<^verbatim>\<open>tables.js\<close> imports the renderers of expressions, column references, binary
  expressions, \<open>VALUES\<close> lists, intervals, identifiers, literals and generator triples from
  other modules. They are parameters here: each takes a node and returns a value, or
  raises. Where one is the callback of \<^verbatim>\<open>map\<close>, it is given the element (\<^verbatim>\<open>map\<close> also
  passes the index and the array, which are no part of the parameter).
\<close>

record collab =
  binaryToSQL :: "jsval \<Rightarrow> jsval raises"
  columnRefToSQL :: "jsval \<Rightarrow> jsval raises"
  exprToSQL :: "jsval \<Rightarrow> jsval raises"
  valuesToSQL :: "jsval \<Rightarrow> jsval raises"
  intervalToSQL :: "jsval \<Rightarrow> jsval raises"
  commonTypeValue :: "jsval \<Rightarrow> jsval raises"
  identifierToSql :: "jsval \<Rightarrow> jsval raises"
  literalToSQL :: "jsval \<Rightarrow> jsval raises"

text \<open>
  Modelled from the spec: \<^verbatim>\<open>toUpper\<close> of \<^verbatim>\<open>util\<close>, which is not among the sources. The
  spec has "uppercase a keyword" and \<^verbatim>\<open>upper(keyword) -> text\<close>, and treats every absent
  field as a segment to omit, never as an error: an absent keyword stays absent. Absent
  is read as \<^verbatim>\<open>tables.js\<close> itself tests it (\<^verbatim>\<open>if (as)\<close>, \<^verbatim>\<open>if (!operator)\<close>): a falsy value.
  A present value that is not text has no upper case, and the call raises.
\<close>

definition toUpper :: "jsval \<Rightarrow> jsval raises" where
  "toUpper val = (if \<not> truthy val then Some Undefined else toUpperCase val)"

text \<open>
  Modelled from the spec: \<^verbatim>\<open>hasVal\<close> of \<^verbatim>\<open>util\<close>, which is not among the sources. The
  spec has "decide whether a rendered fragment is present/non-empty" and
  \<^verbatim>\<open>present(text) -> bool\<close>, "true iff a rendered segment should be kept".
\<close>

definition hasVal :: "jsval \<Rightarrow> bool" where
  "hasVal val = truthy val"

text \<open>
  Modelled from the spec: \<^verbatim>\<open>commonOptionConnector\<close> of \<^verbatim>\<open>util\<close>, which is not among the
  sources. The spec has \<^verbatim>\<open>connect(keyword, renderFn, value) -> text\<close>: "returns empty if
  value is absent, else "<KEYWORD> <renderFn(value)>"". Where the keyword itself is
  absent its segment is omitted, as every absent part is.
\<close>

definition commonOptionConnector ::
  "jsval \<Rightarrow> (jsval \<Rightarrow> jsval raises) \<Rightarrow> jsval \<Rightarrow> jsval raises" where
  "commonOptionConnector keyword action opt =
     (if \<not> truthy opt then Some (Str [])
      else if \<not> truthy keyword then action opt
      else do {
        k \<leftarrow> toUpperCase keyword;
        r \<leftarrow> action opt;
        Some (Str (toStr k @ '' '' @ toStr r))
      })"

section \<open>The renderers of \<^verbatim>\<open>tables.js\<close>\<close>

text \<open>\<^verbatim>\<open>a && b\<close>, for a second operand that may raise.\<close>

definition and_then :: "jsval \<Rightarrow> jsval raises \<Rightarrow> jsval raises" where
  "and_then a b = (if truthy a then b else Some a)"

definition unnestToSQL :: "collab \<Rightarrow> jsval \<Rightarrow> jsval raises" where
  "unnestToSQL E unnestExpr = do {
     type \<leftarrow> propOf unnestExpr ''type'';
     as \<leftarrow> propOf unnestExpr ''as'';
     expr \<leftarrow> propOf unnestExpr ''expr'';
     withOffset \<leftarrow> propOf unnestExpr ''with_offset'';
     u \<leftarrow> toUpper type;
     e \<leftarrow> and_then expr (exprToSQL E expr);
     let head = Str (toStr u @ ''('' @ toStr (if truthy e then e else Str []) @ '')'');
     alias \<leftarrow> commonOptionConnector (Str ''AS'')
                (if isString as then identifierToSql E else exprToSQL E) as;
     wk \<leftarrow> and_then withOffset (propOf withOffset ''keyword'');
     k \<leftarrow> toUpper wk;
     wa \<leftarrow> and_then withOffset (propOf withOffset ''as'');
     offset \<leftarrow> commonOptionConnector k (identifierToSql E) wa;
     Some (Str (js_join '' '' (filter hasVal [head, alias, offset])))
   }"

definition pivotOperatorToSQL :: "collab \<Rightarrow> jsval \<Rightarrow> jsval raises" where
  "pivotOperatorToSQL E operator = do {
     as \<leftarrow> propOf operator ''as'';
     column \<leftarrow> propOf operator ''column'';
     expr \<leftarrow> propOf operator ''expr'';
     in_expr \<leftarrow> propOf operator ''in_expr'';
     type \<leftarrow> propOf operator ''type'';
     e \<leftarrow> exprToSQL E expr;
     c \<leftarrow> columnRefToSQL E column;
     b \<leftarrow> binaryToSQL E in_expr;
     u \<leftarrow> toUpper type;
     let sql = [Str (toStr u @ ''('' @ js_join '' '' [e, Str ''FOR'', c, b] @ '')'')];
     if truthy as then do {
       a \<leftarrow> identifierToSql E as;
       Some (Str (js_join '' '' (sql @ [Str ''AS'', a])))
     } else Some (Str (js_join '' '' sql))
   }"

definition operatorToSQL :: "collab \<Rightarrow> jsval \<Rightarrow> jsval raises" where
  "operatorToSQL E operator =
     (if \<not> truthy operator then Some Undefined
      else do {
        type \<leftarrow> propOf operator ''type'';
        if type = Str ''pivot'' \<or> type = Str ''unpivot'' then pivotOperatorToSQL E operator
        else Some (Str [])
      })"

definition tableHintToSQL :: "collab \<Rightarrow> jsval \<Rightarrow> jsval raises" where
  "tableHintToSQL E tableHintExpr =
     (if \<not> truthy tableHintExpr then Some Undefined
      else do {
        keyword \<leftarrow> propOf tableHintExpr ''keyword'';
        expr \<leftarrow> propOf tableHintExpr ''expr'';
        index \<leftarrow> propOf tableHintExpr ''index'';
        index_columns \<leftarrow> propOf tableHintExpr ''index_columns'';
        parentheses \<leftarrow> propOf tableHintExpr ''parentheses'';
        prefix \<leftarrow> propOf tableHintExpr ''prefix'';
        lk \<leftarrow> toLowerCase keyword;
        result \<leftarrow>
          (if lk = Str ''forceseek'' then do {
             u \<leftarrow> toUpper keyword;
             i \<leftarrow> identifierToSql E index;
             cols \<leftarrow> js_map (exprToSQL E) index_columns;
             Some [u, Str (''('' @ toStr i),
                   Str (''('' @ js_join '', '' (filter hasVal cols) @ ''))'')]
           } else if lk = Str ''spatial_window_max_cells'' then do {
             u \<leftarrow> toUpper keyword;
             e \<leftarrow> exprToSQL E expr;
             Some [u, Str ''='', e]
           } else if lk = Str ''index'' then do {
             p \<leftarrow> toUpper prefix;
             u \<leftarrow> toUpper keyword;
             x \<leftarrow> (if truthy parentheses then do {
                     ids \<leftarrow> js_map (identifierToSql E) expr;
                     Some (Str (''('' @ js_join '', '' ids @ '')''))
                   } else do {
                     i \<leftarrow> identifierToSql E expr;
                     Some (Str (''= '' @ toStr i))
                   });
             Some [p, u, x]
           } else do {
             e \<leftarrow> exprToSQL E expr;
             Some [e]
           });
        Some (Str (js_join '' '' (filter hasVal result)))
      })"

definition tableTumbleToSQL :: "collab \<Rightarrow> jsval \<Rightarrow> jsval raises" where
  "tableTumbleToSQL E tumble =
     (if \<not> truthy tumble then Some (Str [])
      else do {
        tableInfo \<leftarrow> propOf tumble ''data'';
        timecol \<leftarrow> propOf tumble ''timecol'';
        size \<leftarrow> propOf tumble ''size'';
        dbv \<leftarrow> propOf tableInfo ''db'';
        d \<leftarrow> identifierToSql E dbv;
        tv \<leftarrow> propOf tableInfo ''table'';
        t \<leftarrow> identifierToSql E tv;
        let fullTableName = Str (js_join ''.'' (filter hasVal [d, t]));
        c \<leftarrow> columnRefToSQL E timecol;
        i \<leftarrow> intervalToSQL E size;
        Some (Str (js_join '' '' (filter hasVal
          [Str ''TABLE(TUMBLE(TABLE'', fullTableName,
           Str (''DESCRIPTOR('' @ toStr c @ '')''), Str (toStr i @ ''))'')])))
      })"

definition temporalTableOptionToSQL :: "collab \<Rightarrow> jsval \<Rightarrow> jsval raises" where
  "temporalTableOptionToSQL E stmt = do {
     keyword \<leftarrow> propOf stmt ''keyword'';
     result \<leftarrow>
       (if keyword = Str ''as'' then do {
          e \<leftarrow> exprToSQL E (getp stmt ''of'');
          Some [Str ''AS'', Str ''OF'', e]
        } else if keyword = Str ''from_to'' then do {
          f \<leftarrow> exprToSQL E (getp stmt ''from'');
          t \<leftarrow> exprToSQL E (getp stmt ''to'');
          Some [Str ''FROM'', f, Str ''TO'', t]
        } else if keyword = Str ''between_and'' then do {
          b \<leftarrow> exprToSQL E (getp stmt ''between'');
          a \<leftarrow> exprToSQL E (getp stmt ''and'');
          Some [Str ''BETWEEN'', b, Str ''AND'', a]
        } else if keyword = Str ''contained'' then do {
          i \<leftarrow> exprToSQL E (getp stmt ''in'');
          Some [Str ''CONTAINED'', Str ''IN'', i]
        } else Some []);
     Some (Str (js_join '' '' (filter hasVal result)))
   }"

definition temporalTableToSQL :: "collab \<Rightarrow> jsval \<Rightarrow> jsval raises" where
  "temporalTableToSQL E stmt =
     (if \<not> truthy stmt then Some Undefined
      else do {
        keyword \<leftarrow> propOf stmt ''keyword'';
        expr \<leftarrow> propOf stmt ''expr'';
        u \<leftarrow> toUpper keyword;
        clause \<leftarrow> temporalTableOptionToSQL E expr;
        Some (Str (js_join '' '' (filter hasVal [u, clause])))
      })"

definition generateVirtualTable :: "collab \<Rightarrow> jsval \<Rightarrow> jsval raises" where
  "generateVirtualTable E stmt = do {
     keyword \<leftarrow> propOf stmt ''keyword'';
     type \<leftarrow> propOf stmt ''type'';
     generators \<leftarrow> propOf stmt ''generators'';
     gs \<leftarrow> js_map (\<lambda>generator. do {
             triple \<leftarrow> commonTypeValue E generator;
             call_join triple '' ''
           }) generators;
     let generatorSQL = js_join '', '' gs;
     uk \<leftarrow> toUpper keyword;
     ut \<leftarrow> toUpper type;
     Some (Str (toStr uk @ ''('' @ toStr ut @ ''('' @ generatorSQL @ ''))''))
   }"

text \<open>\<^verbatim>\<open>v.split(c)\<close> on any value: only a string has the method.\<close>

definition call_split :: "jsval \<Rightarrow> char \<Rightarrow> string list raises" where
  "call_split v c = (case v of Str s \<Rightarrow> Some (split_on c s) | _ \<Rightarrow> None)"

definition tableToSQL :: "collab \<Rightarrow> jsval \<Rightarrow> jsval raises" where
  "tableToSQL E tableInfo = do {
     type \<leftarrow> propOf tableInfo ''type'';
     ut \<leftarrow> toUpper type;
     if ut = Str ''UNNEST'' then unnestToSQL E tableInfo
     else do {
       let table = getp tableInfo ''table'';
       let db = getp tableInfo ''db'';
       let as = getp tableInfo ''as'';
       let expr = getp tableInfo ''expr'';
       let operator = getp tableInfo ''operator'';
       let prefixStr = getp tableInfo ''prefix'';
       let schema = getp tableInfo ''schema'';
       let server = getp tableInfo ''server'';
       let suffix = getp tableInfo ''suffix'';
       let tablesample = getp tableInfo ''tablesample'';
       let temporal_table = getp tableInfo ''temporal_table'';
       let table_hint = getp tableInfo ''table_hint'';
       serverName \<leftarrow> identifierToSql E server;
       database \<leftarrow> identifierToSql E db;
       schemaStr \<leftarrow> identifierToSql E schema;
       tableName0 \<leftarrow> and_then table (identifierToSql E table);
       tableName1 \<leftarrow>
         (if truthy expr then
            (let exprType = getp expr ''type'' in
             if exprType = Str ''values'' then do {
               let parentheses = getp expr ''parentheses'';
               let values = getp expr ''values'';
               let prefix = getp expr ''prefix'';
               valuesExpr0 \<leftarrow> valuesToSQL E values;
               valuesExpr \<leftarrow>
                 (if truthy prefix then do {
                    parts \<leftarrow> call_split valuesExpr0 CHR ''('';
                    pieces \<leftarrow> traverse (\<lambda>val. do {
                                p \<leftarrow> toUpper prefix;
                                Some (Str (toStr p @ ''('' @ val))
                              }) (tl parts);
                    Some (Str (js_join [] pieces))
                  } else Some valuesExpr0);
               let valueSQL =
                 [if truthy parentheses then Str ''('' else parentheses,
                  Str (''VALUES '' @ toStr valuesExpr),
                  if truthy parentheses then Str '')'' else parentheses];
               Some (Str (js_join [] (filter hasVal valueSQL)))
             }
             else if exprType = Str ''tumble'' then tableTumbleToSQL E expr
             else if exprType = Str ''generator'' then generateVirtualTable E expr
             else exprToSQL E expr)
          else Some tableName0);
       p \<leftarrow> toUpper prefixStr;
       s \<leftarrow> toUpper suffix;
       let tableName = Str (js_join '' '' (filter hasVal [p, tableName1, s]));
       let str = Str (js_join ''.'' (filter hasVal [serverName, database, schemaStr, tableName]));
       result1 \<leftarrow>
         (if truthy tablesample then do {
            e \<leftarrow> exprToSQL E (getp tablesample ''expr'');
            l \<leftarrow> literalToSQL E (getp tablesample ''repeatable'');
            Some [str, Str (js_join '' '' (filter hasVal [Str ''TABLESAMPLE'', e, l]))]
          } else Some [str]);
       temporal \<leftarrow> temporalTableToSQL E temporal_table;
       alias \<leftarrow> commonOptionConnector (Str ''AS'') (identifierToSql E) as;
       oper \<leftarrow> operatorToSQL E operator;
       result \<leftarrow>
         (if truthy table_hint then do {
            hk \<leftarrow> toUpper (getp table_hint ''keyword'');
            hints \<leftarrow> js_map (tableHintToSQL E) (getp table_hint ''expr'');
            Some (result1 @ [temporal, alias, oper,
                    hk, Str (''('' @ js_join '', '' (filter hasVal hints) @ '')'')])
          } else Some (result1 @ [temporal, alias, oper]));
       let tableSQL = js_join '' '' (filter hasVal result);
       Some (Str (if truthy (getp tableInfo ''parentheses'')
                  then ''('' @ tableSQL @ '')'' else tableSQL))
     }
   }"

text \<open>
  The body of the loop of \<^verbatim>\<open>tablesToSQL\<close> (one run for each entry of the chain after the
  first): the text pushed onto \<^verbatim>\<open>clauses\<close>.
\<close>

definition joinClause :: "collab \<Rightarrow> jsval \<Rightarrow> jsval raises" where
  "joinClause E joinExpr = do {
     on \<leftarrow> propOf joinExpr ''on'';
     using \<leftarrow> propOf joinExpr ''using'';
     join \<leftarrow> propOf joinExpr ''join'';
     j \<leftarrow> (if truthy join then do {
             u \<leftarrow> toUpper join;
             Some (Str ('' '' @ toStr u))
           } else Some (Str '',''));
     t \<leftarrow> tableToSQL E joinExpr;
     c \<leftarrow> commonOptionConnector (Str ''ON'') (exprToSQL E) on;
     str \<leftarrow>
       (if truthy using then do {
          cols \<leftarrow> js_map (identifierToSql E) using;
          Some [j, t, c, Str (''USING ('' @ js_join '', '' cols @ '')'')]
        } else Some [j, t, c]);
     Some (Str (js_join '' '' (filter hasVal str)))
   }"

text \<open>
  A measure of a tree for the recursion of \<^verbatim>\<open>tablesToSQL\<close> into the \<open>expr\<close> of a wrapper.
\<close>

fun weight :: "jsval \<Rightarrow> nat" where
  "weight Undefined = 0"
| "weight (Arr xs) = Suc (sum_list (map weight xs))"
| "weight (Obj kv) = Suc (sum_list (map (\<lambda>p. weight (snd p)) kv))"
| "weight v = 1"

function tablesToSQL :: "collab \<Rightarrow> jsval \<Rightarrow> jsval raises" where
  "tablesToSQL E tables =
     (if \<not> truthy tables then Some (Str [])
      else if \<not> isArray tables then do {
        sql \<leftarrow> tablesToSQL E (getp tables ''expr'');
        if truthy (getp tables ''parentheses'') then Some (Str (''('' @ toStr sql @ '')''))
        else Some sql
      }
      else (case tables of
          Arr [] \<Rightarrow> None
        | Arr (baseTable # joins) \<Rightarrow> do {
            type \<leftarrow> propOf baseTable ''type'';
            if type = Str ''dual'' then Some (Str ''DUAL'')
            else do {
              base \<leftarrow> tableToSQL E baseTable;
              rest \<leftarrow> traverse (joinClause E) joins;
              Some (Str (js_join [] (filter hasVal (base # rest))))
            }
          }
        | _ \<Rightarrow> None))"
  by pat_completeness auto
termination
proof (relation "measure (\<lambda>(E, v). weight v)")
  show "wf (measure (\<lambda>(E, v). weight v))"
    by simp
next
  fix E :: collab and tables :: jsval
  assume t: "\<not> \<not> truthy tables" and a: "\<not> isArray tables"
  have look: "weight v \<le> sum_list (map (\<lambda>p. weight (snd p)) kv)"
    if "map_of kv k = Some v" for kv :: "(string \<times> jsval) list" and k v
    using that by (induction kv) (auto split: if_splits)
  have "weight (getp tables ''expr'') < weight tables"
  proof (cases tables)
    case (Obj kv)
    show ?thesis
    proof (cases "map_of kv ''expr''")
      case None
      with Obj show ?thesis by simp
    next
      case (Some v)
      with look [OF Some] Obj show ?thesis by simp
    qed
  qed (use t a in auto)
  then show "((E, getp tables ''expr''), (E, tables)) \<in> measure (\<lambda>(E, v). weight v)"
    by simp
qed

definition tableOptionToSQL :: "collab \<Rightarrow> jsval \<Rightarrow> jsval raises" where
  "tableOptionToSQL E tableOption = do {
     keyword \<leftarrow> propOf tableOption ''keyword'';
     symbol \<leftarrow> propOf tableOption ''symbol'';
     value \<leftarrow> propOf tableOption ''value'';
     uk \<leftarrow> toUpperCase keyword;
     let sql = (if truthy symbol then [uk, symbol] else [uk]);
     val0 \<leftarrow> literalToSQL E value;
     val \<leftarrow>
       (if keyword = Str ''partition by'' \<or> keyword = Str ''default collate'' then
          exprToSQL E value
        else if keyword = Str ''options'' then do {
          items \<leftarrow> js_map (\<lambda>tableOptionItem. do {
                     k \<leftarrow> propOf tableOptionItem ''keyword'';
                     s \<leftarrow> propOf tableOptionItem ''symbol'';
                     v \<leftarrow> propOf tableOptionItem ''value'';
                     e \<leftarrow> exprToSQL E v;
                     Some (Str (js_join '' '' [k, s, e]))
                   }) value;
          Some (Str (''('' @ js_join '', '' items @ '')''))
        }
        else if keyword = Str ''cluster by'' then do {
          xs \<leftarrow> js_map (exprToSQL E) value;
          Some (Str (js_join '', '' xs))
        }
        else Some val0);
     Some (Str (js_join '' '' (sql @ [val])))
   }"

section \<open>Collaborators for the example scenarios\<close>

text \<open>
  Modelled from the spec: the renderers that \<^verbatim>\<open>tables.js\<close> imports and that are not among
  the sources, as the spec's example scenarios display their output: a present leaf
  renders as its own text (the identifier \<^verbatim>\<open>orders\<close> as \<^verbatim>\<open>orders\<close>, the expression
  \<^verbatim>\<open><tags>\<close> as \<^verbatim>\<open>tags\<close>, \<^verbatim>\<open><10>\<close> as \<^verbatim>\<open>10\<close>), an absent one as nothing. The triple
  renderer returns a list with that one text.
\<close>

definition render_plain :: "jsval \<Rightarrow> jsval raises" where
  "render_plain v = (if truthy v then Some (Str (toStr v)) else Some Undefined)"

definition plain :: collab where
  "plain = \<lparr>
     binaryToSQL = render_plain,
     columnRefToSQL = render_plain,
     exprToSQL = render_plain,
     valuesToSQL = render_plain,
     intervalToSQL = render_plain,
     commonTypeValue = (\<lambda>v. Some (Arr [Str (toStr v)])),
     identifierToSql = render_plain,
     literalToSQL = render_plain
   \<rparr>"

text \<open>
  Modelled from the spec: the same stand-in with a VALUES renderer that returns text for
  every list, also for an absent one.
\<close>

definition plain_text :: collab where
  "plain_text = plain\<lparr>valuesToSQL := (\<lambda>v. Some (Str (toStr v)))\<rparr>"

section \<open>Nodes with the parts that the renderers dereference\<close>

text \<open>
  The code validates nothing: a renderer reads the parts of its node and calls string and
  array methods on them. The predicates below say, renderer by renderer, which parts must
  be there for these reads and calls to be defined: a text (or nothing) where the code
  uppercases or lowercases, a list where it maps or joins, an object where it destructures.
  \<open>reference_ok\<close> follows \<^verbatim>\<open>tableToSQL\<close>, \<open>chain_ok\<close> follows \<^verbatim>\<open>tablesToSQL\<close>, \<open>hint_ok\<close>
  \<^verbatim>\<open>tableHintToSQL\<close>, \<open>temporal_ok\<close> \<^verbatim>\<open>temporalTableToSQL\<close> and \<open>option_ok\<close> \<^verbatim>\<open>tableOptionToSQL\<close>.
\<close>

definition text_or_absent :: "jsval \<Rightarrow> bool" where
  "text_or_absent v = (isString v \<or> \<not> truthy v)"

definition temporal_ok :: "jsval \<Rightarrow> bool" where
  "temporal_ok tt =
     (\<not> truthy tt \<or> (text_or_absent (getp tt ''keyword'') \<and> \<not> nullish (getp tt ''expr'')))"

definition hint_ok :: "jsval \<Rightarrow> bool" where
  "hint_ok h =
     (\<not> truthy h \<or>
      (case getp h ''keyword'' of
         Str k \<Rightarrow>
           (if lower k = ''forceseek'' then isArray (getp h ''index_columns'')
            else if lower k = ''spatial_window_max_cells'' then True
            else if lower k = ''index'' then
              text_or_absent (getp h ''prefix'') \<and>
              (\<not> truthy (getp h ''parentheses'') \<or> isArray (getp h ''expr''))
            else True)
       | _ \<Rightarrow> False))"

definition hints_ok :: "jsval \<Rightarrow> bool" where
  "hints_ok th =
     (\<not> truthy th \<or>
      (text_or_absent (getp th ''keyword'') \<and>
       (case getp th ''expr'' of Arr hs \<Rightarrow> list_all hint_ok hs | _ \<Rightarrow> False)))"

definition body_ok :: "jsval \<Rightarrow> bool" where
  "body_ok expr =
     (\<not> truthy expr \<or>
      (if getp expr ''type'' = Str ''values'' then text_or_absent (getp expr ''prefix'')
       else if getp expr ''type'' = Str ''tumble'' then \<not> nullish (getp expr ''data'')
       else if getp expr ''type'' = Str ''generator'' then
         isArray (getp expr ''generators'') \<and> text_or_absent (getp expr ''keyword'')
       else True))"

definition offset_ok :: "jsval \<Rightarrow> bool" where
  "offset_ok wo = (\<not> truthy wo \<or> text_or_absent (getp wo ''keyword''))"

definition reference_ok :: "jsval \<Rightarrow> bool" where
  "reference_ok n =
     (\<not> nullish n \<and>
      (case toUpper (getp n ''type'') of
         None \<Rightarrow> False
       | Some ut \<Rightarrow>
           if ut = Str ''UNNEST'' then offset_ok (getp n ''with_offset'')
           else body_ok (getp n ''expr'') \<and>
                text_or_absent (getp n ''prefix'') \<and> text_or_absent (getp n ''suffix'') \<and>
                temporal_ok (getp n ''temporal_table'') \<and> hints_ok (getp n ''table_hint'')))"

definition join_ok :: "jsval \<Rightarrow> bool" where
  "join_ok j =
     (reference_ok j \<and> text_or_absent (getp j ''join'') \<and>
      (\<not> truthy (getp j ''using'') \<or> isArray (getp j ''using'')))"

function chain_ok :: "jsval \<Rightarrow> bool" where
  "chain_ok tables =
     (if \<not> truthy tables then True
      else if \<not> isArray tables then chain_ok (getp tables ''expr'')
      else (case tables of
          Arr (baseTable # joins) \<Rightarrow>
            \<not> nullish baseTable \<and>
            (getp baseTable ''type'' = Str ''dual'' \<or>
             (reference_ok baseTable \<and> list_all join_ok joins))
        | _ \<Rightarrow> False))"
  by pat_completeness auto
termination
proof (relation "measure weight")
  show "wf (measure weight)"
    by simp
next
  fix tables :: jsval
  assume t: "\<not> \<not> truthy tables" and a: "\<not> isArray tables"
  have look: "weight v \<le> sum_list (map (\<lambda>p. weight (snd p)) kv)"
    if "map_of kv k = Some v" for kv :: "(string \<times> jsval) list" and k v
    using that by (induction kv) (auto split: if_splits)
  have "weight (getp tables ''expr'') < weight tables"
  proof (cases tables)
    case (Obj kv)
    show ?thesis
    proof (cases "map_of kv ''expr''")
      case None
      with Obj show ?thesis by simp
    next
      case (Some v)
      with look [OF Some] Obj show ?thesis by simp
    qed
  qed (use t a in auto)
  then show "(getp tables ''expr'', tables) \<in> measure weight"
    by simp
qed

definition option_ok :: "jsval \<Rightarrow> bool" where
  "option_ok opt =
     (case getp opt ''keyword'' of
        Str k \<Rightarrow>
          (if k = ''options'' then
             (case getp opt ''value'' of
                Arr items \<Rightarrow> list_all (\<lambda>i. \<not> nullish i) items | _ \<Rightarrow> False)
           else if k = ''cluster by'' then isArray (getp opt ''value'')
           else True)
      | _ \<Rightarrow> False)"

declare chain_ok.simps [simp del]

section \<open>Unfolding the chain renderer\<close>

lemma tablesToSQL_absent: "\<not> truthy v \<Longrightarrow> tablesToSQL E v = Some (Str [])"
  by simp

lemma tablesToSQL_wrapper:
  "truthy w \<Longrightarrow> \<not> isArray w \<Longrightarrow>
   tablesToSQL E w = do {
     sql \<leftarrow> tablesToSQL E (getp w ''expr'');
     if truthy (getp w ''parentheses'') then Some (Str (''('' @ toStr sql @ '')''))
     else Some sql
   }"
  by (subst tablesToSQL.simps) simp

lemma tablesToSQL_Nil: "tablesToSQL E (Arr []) = None"
  by simp

lemma tablesToSQL_Cons:
  "tablesToSQL E (Arr (baseTable # joins)) = do {
     type \<leftarrow> propOf baseTable ''type'';
     if type = Str ''dual'' then Some (Str ''DUAL'')
     else do {
       base \<leftarrow> tableToSQL E baseTable;
       rest \<leftarrow> traverse (joinClause E) joins;
       Some (Str (js_join [] (filter hasVal (base # rest))))
     }
   }"
  by simp

declare tablesToSQL.simps [simp del]
declare show_nat.simps [simp del]

lemmas helper_defs = toUpper_def hasVal_def commonOptionConnector_def and_then_def
  toUpperCase_def toLowerCase_def upper_def lower_def upper_char_def lower_char_def
  js_join_def js_map_def call_join_def call_split_def propOf_def show_int_def

lemmas renderer_defs = unnestToSQL_def pivotOperatorToSQL_def operatorToSQL_def
  tableHintToSQL_def tableTumbleToSQL_def temporalTableOptionToSQL_def
  temporalTableToSQL_def generateVirtualTable_def tableToSQL_def joinClause_def
  tableOptionToSQL_def

lemmas plain_defs = plain_def render_plain_def

section \<open>The dual short-circuit\<close>

text \<open>
  C1. A chain given to \<^verbatim>\<open>tablesToSQL\<close> as a non-empty array whose first entry has the type
  tag \<^verbatim>\<open>dual\<close> renders to exactly the text \<^verbatim>\<open>DUAL\<close>, whatever the entries after the first
  are (and whatever the collaborators do).
\<close>

theorem dual_short_circuit:
  "getp baseTable ''type'' = Str ''dual'' \<Longrightarrow>
   tablesToSQL E (Arr (baseTable # joins)) = Some (Str ''DUAL'')"
  by (cases baseTable) (simp_all add: tablesToSQL_Cons propOf_def)

text \<open>The spec's scenario 6: the chain \<^verbatim>\<open>[{type:"dual"}, {join:"INNER JOIN", table:"x"}]\<close>.\<close>

theorem dual_short_circuit_witness:
  "getp (Obj [(''type'', Str ''dual'')]) ''type'' = Str ''dual'' \<and>
   tablesToSQL plain (Arr [Obj [(''type'', Str ''dual'')],
       Obj [(''join'', Str ''INNER JOIN''), (''table'', Str ''x'')]]) = Some (Str ''DUAL'')"
  using dual_short_circuit [of "Obj [(''type'', Str ''dual'')]" plain
      "[Obj [(''join'', Str ''INNER JOIN''), (''table'', Str ''x'')]]"]
  by simp

section \<open>Results are text\<close>

lemma pred_bindI: "(\<And>x. pred_option P (f x)) \<Longrightarrow> pred_option P (Option.bind m f)"
  by (cases m) auto

lemma pred_ifI: "pred_option P a \<Longrightarrow> pred_option P b \<Longrightarrow> pred_option P (if c then a else b)"
  by simp

lemma isString_Str: "isString r \<Longrightarrow> \<exists>s. r = Str s"
  by (cases r) auto

lemma unnestToSQL_text: "pred_option isString (unnestToSQL E v)"
  unfolding unnestToSQL_def Let_def
  by (intro pred_bindI pred_ifI) simp

lemma tableToSQL_text: "pred_option isString (tableToSQL E v)"
  unfolding tableToSQL_def Let_def
  by (intro pred_bindI pred_ifI unnestToSQL_text) simp

lemma tableToSQL_is_Str: "tableToSQL E v = Some r \<Longrightarrow> \<exists>s. r = Str s"
  using tableToSQL_text [of E v] isString_Str [of r] by simp

lemma tablesToSQL_text: "pred_option isString (tablesToSQL E v)"
proof (induction E v rule: tablesToSQL.induct)
  case (1 E tables)
  show ?case
  proof (cases "truthy tables")
    case False
    then show ?thesis by (simp add: tablesToSQL_absent)
  next
    case True
    show ?thesis
    proof (cases "isArray tables")
      case False
      with True have "pred_option isString (tablesToSQL E (getp tables ''expr''))"
        using "1.IH" by simp
      then show ?thesis
        by (subst tablesToSQL_wrapper [OF True False])
          (cases "tablesToSQL E (getp tables ''expr'')", simp_all)
    next
      case isArr: True
      then obtain xs where xs: "tables = Arr xs" by (cases tables) auto
      show ?thesis
      proof (cases xs)
        case Nil
        with xs show ?thesis by (simp add: tablesToSQL_Nil)
      next
        case (Cons b js)
        have "pred_option isString (tablesToSQL E (Arr (b # js)))"
          by (simp only: tablesToSQL_Cons, intro pred_bindI pred_ifI) simp_all
        with xs Cons show ?thesis by simp
      qed
    qed
  qed
qed

lemma tablesToSQL_is_Str: "tablesToSQL E v = Some r \<Longrightarrow> \<exists>s. r = Str s"
  using tablesToSQL_text [of E v] isString_Str [of r] by simp

lemma join_single: "js_join sep (filter hasVal [Str s]) = s"
  by (simp add: js_join_def hasVal_def)

lemma tableToSQL_nullish: "nullish v \<Longrightarrow> tableToSQL E v = None"
  unfolding tableToSQL_def by (simp only: propOf_def if_True Option.bind.simps)

lemma tableToSQL_unnest:
  assumes "getp n ''type'' = Str t" and "upper t = ''UNNEST''"
  shows "tableToSQL E n = unnestToSQL E n"
proof -
  from assms have "t \<noteq> []" by (auto simp: upper_def)
  with assms have u: "toUpper (Str t) = Some (Str ''UNNEST'')"
    by (simp add: toUpper_def toUpperCase_def)
  from assms have n: "nullish n = False" by (cases n) auto
  show ?thesis
    unfolding tableToSQL_def
    by (simp only: propOf_def n assms(1) u if_False if_True Option.bind.simps refl)
qed

section \<open>Parenthesised chains\<close>

text \<open>
  C4. For a wrapper node \<^verbatim>\<open>{expr, parentheses: true}\<close> given to \<^verbatim>\<open>tablesToSQL\<close>, the output is
  \<^verbatim>\<open>"(" + tablesToSQL(expr) + ")"\<close>: the rendering of the inner chain (always a text, by
  \<open>tablesToSQL_is_Str\<close>) between two parentheses and otherwise unchanged; where the inner
  rendering raises, so does the wrapper's.
\<close>

theorem wrapper_parentheses:
  "getp w ''parentheses'' = Bool True \<Longrightarrow>
   tablesToSQL E w =
     (case tablesToSQL E (getp w ''expr'') of
        None \<Rightarrow> None
      | Some sql \<Rightarrow> Some (Str (''('' @ toStr sql @ '')'')))"
proof -
  assume p: "getp w ''parentheses'' = Bool True"
  then have "truthy w" "\<not> isArray w" by (cases w; simp)+
  from tablesToSQL_wrapper [OF this] p show ?thesis
    by (simp split: option.splits)
qed

theorem wrapper_parentheses_witness:
  "getp (Obj [(''expr'', Arr [Obj [(''table'', Str ''a'')], Obj [(''table'', Str ''b'')]]),
              (''parentheses'', Bool True)]) ''parentheses'' = Bool True \<and>
   tablesToSQL plain (Arr [Obj [(''table'', Str ''a'')], Obj [(''table'', Str ''b'')]])
     = Some (Str ''a, b'') \<and>
   tablesToSQL plain
     (Obj [(''expr'', Arr [Obj [(''table'', Str ''a'')], Obj [(''table'', Str ''b'')]]),
           (''parentheses'', Bool True)]) = Some (Str ''(a, b)'')"
  using wrapper_parentheses
    [of "Obj [(''expr'', Arr [Obj [(''table'', Str ''a'')], Obj [(''table'', Str ''b'')]]),
              (''parentheses'', Bool True)]" plain]
  by (simp add: tablesToSQL_Cons renderer_defs helper_defs plain_defs Let_def)

section \<open>Table references\<close>

text \<open>
  \<^verbatim>\<open>tableToSQL\<close> on a reference that is no UNNEST, has no derived-table body and no hints,
  once its parts are rendered: without and with a sampling clause.
\<close>

lemma tableToSQL_reference:
  assumes "nullish n = False"
    and "toUpper (getp n ''type'') = Some ut" and "(ut = Str ''UNNEST'') = False"
    and "truthy (getp n ''expr'') = False"
    and "identifierToSql E (getp n ''server'') = Some sv"
    and "identifierToSql E (getp n ''db'') = Some dv"
    and "identifierToSql E (getp n ''schema'') = Some cv"
    and "and_then (getp n ''table'') (identifierToSql E (getp n ''table'')) = Some tn"
    and "toUpper (getp n ''prefix'') = Some p"
    and "toUpper (getp n ''suffix'') = Some s"
    and "truthy (getp n ''tablesample'') = False"
    and "temporalTableToSQL E (getp n ''temporal_table'') = Some tmp"
    and "commonOptionConnector (Str ''AS'') (identifierToSql E) (getp n ''as'') = Some al"
    and "operatorToSQL E (getp n ''operator'') = Some op"
    and "truthy (getp n ''table_hint'') = False"
  shows "tableToSQL E n =
    Some (Str (let tableSQL = js_join '' '' (filter hasVal
                 [Str (js_join ''.'' (filter hasVal
                    [sv, dv, cv, Str (js_join '' '' (filter hasVal [p, tn, s]))])),
                  tmp, al, op])
               in if truthy (getp n ''parentheses'') then ''('' @ tableSQL @ '')'' else tableSQL))"
  unfolding tableToSQL_def
  by (simp only: assms propOf_def Let_def if_False if_True Option.bind.simps append.simps)


lemma toUpper_absent: "\<not> truthy v \<Longrightarrow> toUpper v = Some Undefined"
  by (simp add: toUpper_def)

lemma toUpper_Str: "toUpper (Str s) = Some (if s = [] then Undefined else Str (upper s))"
  by (simp add: toUpper_def toUpperCase_def)

lemma temporalTableToSQL_absent: "\<not> truthy v \<Longrightarrow> temporalTableToSQL E v = Some Undefined"
  by (simp add: temporalTableToSQL_def)

lemma operatorToSQL_absent: "\<not> truthy v \<Longrightarrow> operatorToSQL E v = Some Undefined"
  by (simp add: operatorToSQL_def)

lemma connector_absent: "\<not> truthy v \<Longrightarrow> commonOptionConnector k f v = Some (Str [])"
  by (simp add: commonOptionConnector_def)

lemma connector_Str:
  "truthy v \<Longrightarrow> k \<noteq> [] \<Longrightarrow> f v = Some r \<Longrightarrow>
   commonOptionConnector (Str k) f v = Some (Str (upper k @ '' '' @ toStr r))"
  by (simp add: commonOptionConnector_def toUpperCase_def)

lemma hasVal_simps:
  "hasVal Undefined = False" "hasVal Null = False" "hasVal (Str s) = (s \<noteq> [])"
  by (simp_all add: hasVal_def)

lemma join_name: "isString tn \<or> \<not> truthy tn \<Longrightarrow>
  js_join sep (filter hasVal (xs @ [Str (js_join sep' (filter hasVal [Undefined, tn, Undefined]))]))
    = js_join sep (filter hasVal (xs @ [tn]))"
  by (cases tn) (auto simp: js_join_def hasVal_def)

lemma upper_AS: "upper ''AS'' = ''AS''" and upper_ON: "upper ''ON'' = ''ON''"
  by (simp_all add: upper_def upper_char_def)

lemma upper_Nil: "(upper k = []) = (k = [])"
  by (simp add: upper_def)

lemma tableToSQL_names_any_tag:
  assumes node: "\<not> nullish n"
    and tag: "toUpper (getp n ''type'') = Some ut" "ut \<noteq> Str ''UNNEST''"
    and absent: "list_all (\<lambda>k. \<not> truthy (getp n k))
       [''expr'', ''as'', ''prefix'', ''suffix'', ''parentheses'', ''tablesample'',
        ''temporal_table'', ''table_hint'', ''operator'']"
    and server: "identifierToSql E (getp n ''server'') = Some sv"
    and db: "identifierToSql E (getp n ''db'') = Some dv"
    and schema: "identifierToSql E (getp n ''schema'') = Some cv"
    and table: "and_then (getp n ''table'') (identifierToSql E (getp n ''table'')) = Some tn"
    and tn_text: "isString tn \<or> \<not> truthy tn"
  shows "tableToSQL E n = Some (Str (js_join ''.'' (filter hasVal [sv, dv, cv, tn])))"
proof -
  have j: "js_join ''.'' (filter hasVal
             [sv, dv, cv, Str (js_join '' '' (filter hasVal [Undefined, tn, Undefined]))])
      = js_join ''.'' (filter hasVal [sv, dv, cv, tn])"
    using join_name [OF tn_text, of "''.''" "[sv, dv, cv]" "'' ''"] by simp
  from absent have a: "\<not> truthy (getp n ''expr'')"
    "\<not> truthy (getp n ''as'')" "\<not> truthy (getp n ''prefix'')" "\<not> truthy (getp n ''suffix'')"
    "\<not> truthy (getp n ''parentheses'')" "\<not> truthy (getp n ''tablesample'')"
    "\<not> truthy (getp n ''temporal_table'')" "\<not> truthy (getp n ''table_hint'')"
    "\<not> truthy (getp n ''operator'')"
    by simp_all
  have "tableToSQL E n = Some (Str (let tableSQL = js_join '' '' (filter hasVal
                 [Str (js_join ''.'' (filter hasVal
                    [sv, dv, cv, Str (js_join '' '' (filter hasVal [Undefined, tn, Undefined]))])),
                  Undefined, Str [], Undefined])
               in if truthy (getp n ''parentheses'') then ''('' @ tableSQL @ '')'' else tableSQL))"
    by (rule tableToSQL_reference [where ut = ut])
      (use node tag a server db schema table in
        \<open>simp_all add: toUpper_absent temporalTableToSQL_absent operatorToSQL_absent connector_absent\<close>)
  also have "\<dots> = Some (Str (js_join ''.'' (filter hasVal [sv, dv, cv, tn])))"
  proof -
    have "filter hasVal [Str x, Undefined, Str [], Undefined] = filter hasVal [Str x]" for x
      by (simp add: hasVal_simps)
    with a(5) show ?thesis
      unfolding j Let_def by (simp only: join_single if_False)
  qed
  finally show ?thesis .
qed

lemma tableToSQL_names_only:
  assumes node: "\<not> nullish n"
    and absent: "list_all (\<lambda>k. \<not> truthy (getp n k))
       [''type'', ''expr'', ''as'', ''prefix'', ''suffix'', ''parentheses'', ''tablesample'',
        ''temporal_table'', ''table_hint'', ''operator'']"
    and server: "identifierToSql E (getp n ''server'') = Some sv"
    and db: "identifierToSql E (getp n ''db'') = Some dv"
    and schema: "identifierToSql E (getp n ''schema'') = Some cv"
    and table: "and_then (getp n ''table'') (identifierToSql E (getp n ''table'')) = Some tn"
    and tn_text: "isString tn \<or> \<not> truthy tn"
  shows "tableToSQL E n = Some (Str (js_join ''.'' (filter hasVal [sv, dv, cv, tn])))"
proof (rule tableToSQL_names_any_tag [where ut = Undefined])
  from absent show "toUpper (getp n ''type'') = Some Undefined"
    by (simp add: toUpper_absent)
  from absent show "list_all (\<lambda>k. \<not> truthy (getp n k))
       [''expr'', ''as'', ''prefix'', ''suffix'', ''parentheses'', ''tablesample'',
        ''temporal_table'', ''table_hint'', ''operator'']"
    by simp
qed (use node server db schema table tn_text in simp_all)

lemma tableToSQL_aliased:
  assumes u: "identifierToSql E Undefined = Some u" "\<not> hasVal u"
    and t: "identifierToSql E (Str t) = Some (Str t')" "t \<noteq> []" "t' \<noteq> []"
    and a: "identifierToSql E (Str a) = Some (Str a')" "a \<noteq> []"
  shows "tableToSQL E (Obj [(''table'', Str t), (''as'', Str a)]) = Some (Str (t' @ '' AS '' @ a'))"
proof -
  let ?n = "Obj [(''table'', Str t), (''as'', Str a)]"
  have "tableToSQL E ?n = Some (Str (let tableSQL = js_join '' '' (filter hasVal
                 [Str (js_join ''.'' (filter hasVal
                    [u, u, u, Str (js_join '' '' (filter hasVal [Undefined, Str t', Undefined]))])),
                  Undefined, Str (''AS '' @ a'), Undefined])
               in if truthy (getp ?n ''parentheses'') then ''('' @ tableSQL @ '')'' else tableSQL))"
    by (rule tableToSQL_reference [where ut = Undefined])
      (use assms in \<open>simp_all add: toUpper_absent temporalTableToSQL_absent operatorToSQL_absent
         connector_Str upper_AS and_then_def\<close>)
  with u(2) t(3) show ?thesis
    by (simp add: hasVal_simps js_join_def)
qed

section \<open>Temporal clauses\<close>

lemma getp_Str_not_nullish: "getp v k = Str s \<Longrightarrow> \<not> nullish v \<and> truthy v"
  by (cases v) (auto split: if_splits)

lemma temporalTableToSQL_clause:
  assumes "getp tt ''keyword'' = Str k" and "k \<noteq> []"
    and "temporalTableOptionToSQL E (getp tt ''expr'') = Some (Str c)"
  shows "temporalTableToSQL E tt = Some (Str (if c = [] then upper k else upper k @ '' '' @ c))"
  using assms getp_Str_not_nullish [OF assms(1)]
  by (simp add: temporalTableToSQL_def propOf_def toUpper_Str hasVal_simps upper_Nil js_join_def)

lemma temporal_as:
  assumes "getp stmt ''keyword'' = Str ''as''"
    and "exprToSQL E (getp stmt ''of'') = Some (Str a)" and "a \<noteq> []"
  shows "temporalTableOptionToSQL E stmt = Some (Str (''AS OF '' @ a))"
  using assms getp_Str_not_nullish [OF assms(1)]
  by (simp add: temporalTableOptionToSQL_def propOf_def hasVal_simps js_join_def)

lemma temporal_from_to:
  assumes "getp stmt ''keyword'' = Str ''from_to''"
    and "exprToSQL E (getp stmt ''from'') = Some (Str f)" and "f \<noteq> []"
    and "exprToSQL E (getp stmt ''to'') = Some (Str t)" and "t \<noteq> []"
  shows "temporalTableOptionToSQL E stmt = Some (Str (''FROM '' @ f @ '' TO '' @ t))"
  using assms getp_Str_not_nullish [OF assms(1)]
  by (simp add: temporalTableOptionToSQL_def propOf_def hasVal_simps js_join_def)

lemma temporal_between_and:
  assumes "getp stmt ''keyword'' = Str ''between_and''"
    and "exprToSQL E (getp stmt ''between'') = Some (Str b)" and "b \<noteq> []"
    and "exprToSQL E (getp stmt ''and'') = Some (Str a)" and "a \<noteq> []"
  shows "temporalTableOptionToSQL E stmt = Some (Str (''BETWEEN '' @ b @ '' AND '' @ a))"
  using assms getp_Str_not_nullish [OF assms(1)]
  by (simp add: temporalTableOptionToSQL_def propOf_def hasVal_simps js_join_def)

lemma temporal_contained:
  assumes "getp stmt ''keyword'' = Str ''contained''"
    and "exprToSQL E (getp stmt ''in'') = Some (Str i)" and "i \<noteq> []"
  shows "temporalTableOptionToSQL E stmt = Some (Str (''CONTAINED IN '' @ i))"
  using assms getp_Str_not_nullish [OF assms(1)]
  by (simp add: temporalTableOptionToSQL_def propOf_def hasVal_simps js_join_def)

lemma temporal_unknown:
  assumes "\<not> nullish stmt"
    and "getp stmt ''keyword'' \<notin> {Str ''as'', Str ''from_to'', Str ''between_and'', Str ''contained''}"
  shows "temporalTableOptionToSQL E stmt = Some (Str [])"
  using assms
  by (simp add: temporalTableOptionToSQL_def propOf_def js_join_def)

lemma operatorToSQL_unknown:
  assumes "truthy v" and "getp v ''type'' \<notin> {Str ''pivot'', Str ''unpivot''}"
  shows "operatorToSQL E v = Some (Str [])"
proof -
  from assms(1) have "\<not> nullish v" by (cases v) auto
  with assms show ?thesis by (simp add: operatorToSQL_def propOf_def)
qed

lemma upper_fst: "upper ''for_system_time'' = ''FOR_SYSTEM_TIME''"
  by (simp add: upper_def upper_char_def)

lemma tableToSQL_temporal:
  assumes u: "identifierToSql E Undefined = Some u" "\<not> hasVal u"
    and t: "identifierToSql E (Str t) = Some (Str t')" "t \<noteq> []" "t' \<noteq> []"
    and c: "temporalTableToSQL E tt = Some (Str c)" "c \<noteq> []"
  shows "tableToSQL E (Obj [(''table'', Str t), (''temporal_table'', tt)])
     = Some (Str (t' @ '' '' @ c))"
proof -
  let ?n = "Obj [(''table'', Str t), (''temporal_table'', tt)]"
  have "tableToSQL E ?n = Some (Str (let tableSQL = js_join '' '' (filter hasVal
                 [Str (js_join ''.'' (filter hasVal
                    [u, u, u, Str (js_join '' '' (filter hasVal [Undefined, Str t', Undefined]))])),
                  Str c, Str [], Undefined])
               in if truthy (getp ?n ''parentheses'') then ''('' @ tableSQL @ '')'' else tableSQL))"
    by (rule tableToSQL_reference [where ut = Undefined])
      (use assms in \<open>simp_all add: toUpper_absent operatorToSQL_absent connector_absent and_then_def\<close>)
  with u(2) t(3) c(2) show ?thesis
    by (simp add: hasVal_simps js_join_def)
qed

text \<open>
  C6. For a temporal-table node with a keyword \<open>k\<close>, \<^verbatim>\<open>temporalTableToSQL\<close> renders the
  uppercased \<open>k\<close> followed by the clause that the inner keyword selects: \<^verbatim>\<open>as\<close> gives
  \<^verbatim>\<open>AS OF <expr>\<close>, \<^verbatim>\<open>from_to\<close> gives \<^verbatim>\<open>FROM <expr> TO <expr>\<close>, \<^verbatim>\<open>between_and\<close> gives
  \<^verbatim>\<open>BETWEEN <expr> AND <expr>\<close>, \<^verbatim>\<open>contained\<close> gives \<^verbatim>\<open>CONTAINED IN <expr>\<close>, for expressions
  that render to non-empty text. The table \<^verbatim>\<open>t\<close> with the temporal table
  \<^verbatim>\<open>{keyword: "for_system_time", expr: {keyword: "as", of: ts}}\<close> renders to
  \<^verbatim>\<open>t FOR_SYSTEM_TIME AS OF\<close> and the text of \<open>ts\<close>.
\<close>

theorem temporal_clause_forms:
  assumes "getp tt ''keyword'' = Str k" and "k \<noteq> []" and "getp tt ''expr'' = stmt"
  shows
   "(getp stmt ''keyword'' = Str ''as'' \<and> exprToSQL E (getp stmt ''of'') = Some (Str a) \<and> a \<noteq> []
       \<longrightarrow> temporalTableToSQL E tt = Some (Str (upper k @ '' AS OF '' @ a))) \<and>
    (getp stmt ''keyword'' = Str ''from_to'' \<and> exprToSQL E (getp stmt ''from'') = Some (Str f) \<and>
     f \<noteq> [] \<and> exprToSQL E (getp stmt ''to'') = Some (Str t) \<and> t \<noteq> []
       \<longrightarrow> temporalTableToSQL E tt = Some (Str (upper k @ '' FROM '' @ f @ '' TO '' @ t))) \<and>
    (getp stmt ''keyword'' = Str ''between_and'' \<and>
     exprToSQL E (getp stmt ''between'') = Some (Str b) \<and> b \<noteq> [] \<and>
     exprToSQL E (getp stmt ''and'') = Some (Str d) \<and> d \<noteq> []
       \<longrightarrow> temporalTableToSQL E tt = Some (Str (upper k @ '' BETWEEN '' @ b @ '' AND '' @ d))) \<and>
    (getp stmt ''keyword'' = Str ''contained'' \<and> exprToSQL E (getp stmt ''in'') = Some (Str i) \<and>
     i \<noteq> []
       \<longrightarrow> temporalTableToSQL E tt = Some (Str (upper k @ '' CONTAINED IN '' @ i))) \<and>
    (identifierToSql E Undefined = Some u \<and> \<not> hasVal u \<and>
     identifierToSql E (Str ''t'') = Some (Str ''t'') \<and>
     exprToSQL E ts = Some (Str tstext) \<and> tstext \<noteq> []
       \<longrightarrow> tableToSQL E (Obj [(''table'', Str ''t''), (''temporal_table'',
               Obj [(''keyword'', Str ''for_system_time''),
                    (''expr'', Obj [(''keyword'', Str ''as''), (''of'', ts)])])])
             = Some (Str (''t FOR_SYSTEM_TIME AS OF '' @ tstext)))"
proof (intro conjI impI)
  assume "getp stmt ''keyword'' = Str ''as'' \<and> exprToSQL E (getp stmt ''of'') = Some (Str a) \<and> a \<noteq> []"
  then have "temporalTableOptionToSQL E (getp tt ''expr'') = Some (Str (''AS OF '' @ a))"
    using assms(3) temporal_as by blast
  from temporalTableToSQL_clause [OF assms(1,2) this]
  show "temporalTableToSQL E tt = Some (Str (upper k @ '' AS OF '' @ a))" by simp
next
  assume "getp stmt ''keyword'' = Str ''from_to'' \<and> exprToSQL E (getp stmt ''from'') = Some (Str f) \<and>
     f \<noteq> [] \<and> exprToSQL E (getp stmt ''to'') = Some (Str t) \<and> t \<noteq> []"
  then have "temporalTableOptionToSQL E (getp tt ''expr'') = Some (Str (''FROM '' @ f @ '' TO '' @ t))"
    using assms(3) temporal_from_to by blast
  from temporalTableToSQL_clause [OF assms(1,2) this]
  show "temporalTableToSQL E tt = Some (Str (upper k @ '' FROM '' @ f @ '' TO '' @ t))" by simp
next
  assume "getp stmt ''keyword'' = Str ''between_and'' \<and>
     exprToSQL E (getp stmt ''between'') = Some (Str b) \<and> b \<noteq> [] \<and>
     exprToSQL E (getp stmt ''and'') = Some (Str d) \<and> d \<noteq> []"
  then have "temporalTableOptionToSQL E (getp tt ''expr'') = Some (Str (''BETWEEN '' @ b @ '' AND '' @ d))"
    using assms(3) temporal_between_and by blast
  from temporalTableToSQL_clause [OF assms(1,2) this]
  show "temporalTableToSQL E tt = Some (Str (upper k @ '' BETWEEN '' @ b @ '' AND '' @ d))" by simp
next
  assume "getp stmt ''keyword'' = Str ''contained'' \<and> exprToSQL E (getp stmt ''in'') = Some (Str i) \<and>
     i \<noteq> []"
  then have "temporalTableOptionToSQL E (getp tt ''expr'') = Some (Str (''CONTAINED IN '' @ i))"
    using assms(3) temporal_contained by blast
  from temporalTableToSQL_clause [OF assms(1,2) this]
  show "temporalTableToSQL E tt = Some (Str (upper k @ '' CONTAINED IN '' @ i))" by simp
next
  let ?st = "Obj [(''keyword'', Str ''as''), (''of'', ts)]"
  let ?tt = "Obj [(''keyword'', Str ''for_system_time''), (''expr'', ?st)]"
  assume h: "identifierToSql E Undefined = Some u \<and> \<not> hasVal u \<and>
     identifierToSql E (Str ''t'') = Some (Str ''t'') \<and>
     exprToSQL E ts = Some (Str tstext) \<and> tstext \<noteq> []"
  then have "temporalTableOptionToSQL E ?st = Some (Str (''AS OF '' @ tstext))"
    by (intro temporal_as) simp_all
  then have "temporalTableToSQL E ?tt = Some (Str (''FOR_SYSTEM_TIME AS OF '' @ tstext))"
    using temporalTableToSQL_clause [of ?tt "''for_system_time''" E "''AS OF '' @ tstext"]
    by (simp add: upper_fst)
  with h show "tableToSQL E (Obj [(''table'', Str ''t''), (''temporal_table'', ?tt)])
             = Some (Str (''t FOR_SYSTEM_TIME AS OF '' @ tstext))"
    using tableToSQL_temporal [of E u "''t''" "''t''" ?tt "''FOR_SYSTEM_TIME AS OF '' @ tstext"]
    by simp
qed

theorem temporal_clause_forms_witness:
  "temporalTableToSQL plain (Obj [(''keyword'', Str ''for_system_time''),
      (''expr'', Obj [(''keyword'', Str ''as''), (''of'', Str ''2024-01-01'')])])
     = Some (Str ''FOR_SYSTEM_TIME AS OF 2024-01-01'') \<and>
   temporalTableToSQL plain (Obj [(''keyword'', Str ''for_system_time''),
      (''expr'', Obj [(''keyword'', Str ''from_to''), (''from'', Str ''x''), (''to'', Str ''y'')])])
     = Some (Str ''FOR_SYSTEM_TIME FROM x TO y'') \<and>
   temporalTableToSQL plain (Obj [(''keyword'', Str ''for_system_time''),
      (''expr'', Obj [(''keyword'', Str ''between_and''), (''between'', Str ''x''), (''and'', Str ''y'')])])
     = Some (Str ''FOR_SYSTEM_TIME BETWEEN x AND y'') \<and>
   temporalTableToSQL plain (Obj [(''keyword'', Str ''for_system_time''),
      (''expr'', Obj [(''keyword'', Str ''contained''), (''in'', Str ''(x, y)'')])])
     = Some (Str ''FOR_SYSTEM_TIME CONTAINED IN (x, y)'') \<and>
   tableToSQL plain (Obj [(''table'', Str ''t''), (''temporal_table'',
       Obj [(''keyword'', Str ''for_system_time''),
            (''expr'', Obj [(''keyword'', Str ''as''), (''of'', Str ''2024-01-01'')])])])
     = Some (Str ''t FOR_SYSTEM_TIME AS OF 2024-01-01'')"
  using
    temporal_clause_forms [of "Obj [(''keyword'', Str ''for_system_time''),
      (''expr'', Obj [(''keyword'', Str ''as''), (''of'', Str ''2024-01-01'')])]"
      "''for_system_time''" "Obj [(''keyword'', Str ''as''), (''of'', Str ''2024-01-01'')]"
      plain "''2024-01-01''" f t b d i Undefined "Str ''2024-01-01''" "''2024-01-01''"]
    temporal_clause_forms [of "Obj [(''keyword'', Str ''for_system_time''),
      (''expr'', Obj [(''keyword'', Str ''from_to''), (''from'', Str ''x''), (''to'', Str ''y'')])]"
      "''for_system_time''" "Obj [(''keyword'', Str ''from_to''), (''from'', Str ''x''), (''to'', Str ''y'')]"
      plain a "''x''" "''y''"]
    temporal_clause_forms [of "Obj [(''keyword'', Str ''for_system_time''),
      (''expr'', Obj [(''keyword'', Str ''between_and''), (''between'', Str ''x''), (''and'', Str ''y'')])]"
      "''for_system_time''" "Obj [(''keyword'', Str ''between_and''), (''between'', Str ''x''), (''and'', Str ''y'')]"
      plain a f t "''x''" "''y''"]
    temporal_clause_forms [of "Obj [(''keyword'', Str ''for_system_time''),
      (''expr'', Obj [(''keyword'', Str ''contained''), (''in'', Str ''(x, y)'')])]"
      "''for_system_time''" "Obj [(''keyword'', Str ''contained''), (''in'', Str ''(x, y)'')]"
      plain a f t b d "''(x, y)''"]
  by (simp add: helper_defs plain_defs)

section \<open>Unsupported discriminants\<close>

lemma bind_if: "Option.bind (if c then a else b) f = (if c then Option.bind a f else Option.bind b f)"
  by simp

lemma unnestToSQL_operator:
  "unnestToSQL E (Obj ((''operator'', v) # kv)) = unnestToSQL E (Obj kv)"
  unfolding unnestToSQL_def propOf_def by simp

lemma tableToSQL_operator_dropped:
  assumes "operatorToSQL E (getp (Obj kv) ''operator'') = Some x" and "\<not> hasVal x"
  shows "tableToSQL E (Obj ((''operator'', Undefined) # kv)) = tableToSQL E (Obj kv)"
proof -
  have f: "filter hasVal (xs @ [t, a, x]) = filter hasVal (xs @ [t, a, Undefined])"
    "filter hasVal (xs @ [t, a, x, h, y]) = filter hasVal (xs @ [t, a, Undefined, h, y])"
    for xs t a h y
    using assms(2) by (simp_all add: hasVal_simps)
  have o: "operatorToSQL E Undefined = Some Undefined"
    by (simp add: operatorToSQL_absent)
  have g: "getp (Obj ((''operator'', Undefined) # kv)) ''operator'' = Undefined"
    "getp (Obj ((''operator'', Undefined) # kv)) ''type'' = getp (Obj kv) ''type''"
    "getp (Obj ((''operator'', Undefined) # kv)) ''table'' = getp (Obj kv) ''table''"
    "getp (Obj ((''operator'', Undefined) # kv)) ''db'' = getp (Obj kv) ''db''"
    "getp (Obj ((''operator'', Undefined) # kv)) ''as'' = getp (Obj kv) ''as''"
    "getp (Obj ((''operator'', Undefined) # kv)) ''expr'' = getp (Obj kv) ''expr''"
    "getp (Obj ((''operator'', Undefined) # kv)) ''prefix'' = getp (Obj kv) ''prefix''"
    "getp (Obj ((''operator'', Undefined) # kv)) ''schema'' = getp (Obj kv) ''schema''"
    "getp (Obj ((''operator'', Undefined) # kv)) ''server'' = getp (Obj kv) ''server''"
    "getp (Obj ((''operator'', Undefined) # kv)) ''suffix'' = getp (Obj kv) ''suffix''"
    "getp (Obj ((''operator'', Undefined) # kv)) ''tablesample'' = getp (Obj kv) ''tablesample''"
    "getp (Obj ((''operator'', Undefined) # kv)) ''temporal_table'' = getp (Obj kv) ''temporal_table''"
    "getp (Obj ((''operator'', Undefined) # kv)) ''table_hint'' = getp (Obj kv) ''table_hint''"
    "getp (Obj ((''operator'', Undefined) # kv)) ''parentheses'' = getp (Obj kv) ''parentheses''"
    by simp_all
  have n: "nullish (Obj z) = False" for z by simp
  show ?thesis
    unfolding tableToSQL_def
    by (simp only: propOf_def n g o assms(1) f unnestToSQL_operator Let_def if_False
        Option.bind.simps bind_if Option.bind_assoc)
qed

lemma temporalTableToSQL_unknown:
  assumes "getp tt ''keyword'' = Str k" and "k \<noteq> []" and "\<not> nullish (getp tt ''expr'')"
    and "getp (getp tt ''expr'') ''keyword'' \<notin>
           {Str ''as'', Str ''from_to'', Str ''between_and'', Str ''contained''}"
  shows "temporalTableToSQL E tt = Some (Str (upper k))"
  using temporalTableToSQL_clause [OF assms(1,2) temporal_unknown [OF assms(3,4)]] by simp

text \<open>
  C3. For a present pivot-operator node whose type is neither \<^verbatim>\<open>pivot\<close> nor \<^verbatim>\<open>unpivot\<close>,
  \<^verbatim>\<open>operatorToSQL\<close> returns the empty text; for a temporal-clause node whose keyword is none
  of \<^verbatim>\<open>as\<close>, \<^verbatim>\<open>from_to\<close>, \<^verbatim>\<open>between_and\<close>, \<^verbatim>\<open>contained\<close>, \<^verbatim>\<open>temporalTableOptionToSQL\<close> returns
  the empty text. Neither is a token of the output of \<^verbatim>\<open>tableToSQL\<close>: a reference with
  such an operator renders as the same reference with the operator cleared, and the
  temporal segment is the uppercased outer keyword alone, so that the table \<open>t\<close> with it
  renders to the name, one space and that keyword.
\<close>

theorem unsupported_discriminants:
  "(truthy v \<and> getp v ''type'' \<notin> {Str ''pivot'', Str ''unpivot''}
      \<longrightarrow> operatorToSQL E v = Some (Str [])) \<and>
   (\<not> nullish stmt \<and>
    getp stmt ''keyword'' \<notin> {Str ''as'', Str ''from_to'', Str ''between_and'', Str ''contained''}
      \<longrightarrow> temporalTableOptionToSQL E stmt = Some (Str [])) \<and>
   (truthy (getp (Obj kv) ''operator'') \<and>
    getp (getp (Obj kv) ''operator'') ''type'' \<notin> {Str ''pivot'', Str ''unpivot''}
      \<longrightarrow> tableToSQL E (Obj kv) = tableToSQL E (Obj ((''operator'', Undefined) # kv))) \<and>
   (getp tt ''keyword'' = Str k \<and> k \<noteq> [] \<and> \<not> nullish (getp tt ''expr'') \<and>
    getp (getp tt ''expr'') ''keyword'' \<notin>
      {Str ''as'', Str ''from_to'', Str ''between_and'', Str ''contained''}
      \<longrightarrow> temporalTableToSQL E tt = Some (Str (upper k)) \<and>
          (identifierToSql E Undefined = Some u \<and> \<not> hasVal u \<and>
           identifierToSql E (Str t) = Some (Str t') \<and> t \<noteq> [] \<and> t' \<noteq> []
             \<longrightarrow> tableToSQL E (Obj [(''table'', Str t), (''temporal_table'', tt)])
                   = Some (Str (t' @ '' '' @ upper k))))"
proof (intro conjI impI)
  assume "truthy v \<and> getp v ''type'' \<notin> {Str ''pivot'', Str ''unpivot''}"
  then show "operatorToSQL E v = Some (Str [])"
    by (simp add: operatorToSQL_unknown)
next
  assume "\<not> nullish stmt \<and>
    getp stmt ''keyword'' \<notin> {Str ''as'', Str ''from_to'', Str ''between_and'', Str ''contained''}"
  then show "temporalTableOptionToSQL E stmt = Some (Str [])"
    by (simp add: temporal_unknown)
next
  assume "truthy (getp (Obj kv) ''operator'') \<and>
    getp (getp (Obj kv) ''operator'') ''type'' \<notin> {Str ''pivot'', Str ''unpivot''}"
  then have "operatorToSQL E (getp (Obj kv) ''operator'') = Some (Str [])"
    by (simp add: operatorToSQL_unknown)
  from tableToSQL_operator_dropped [OF this]
  show "tableToSQL E (Obj kv) = tableToSQL E (Obj ((''operator'', Undefined) # kv))"
    by (simp add: hasVal_simps)
next
  assume h: "getp tt ''keyword'' = Str k \<and> k \<noteq> [] \<and> \<not> nullish (getp tt ''expr'') \<and>
    getp (getp tt ''expr'') ''keyword'' \<notin>
      {Str ''as'', Str ''from_to'', Str ''between_and'', Str ''contained''}"
  then show "temporalTableToSQL E tt = Some (Str (upper k))"
    using temporalTableToSQL_unknown by blast
  assume "identifierToSql E Undefined = Some u \<and> \<not> hasVal u \<and>
           identifierToSql E (Str t) = Some (Str t') \<and> t \<noteq> [] \<and> t' \<noteq> []"
  moreover from h have "temporalTableToSQL E tt = Some (Str (upper k))" "upper k \<noteq> []"
    using temporalTableToSQL_unknown by (blast, simp add: upper_Nil)
  ultimately show "tableToSQL E (Obj [(''table'', Str t), (''temporal_table'', tt)])
                   = Some (Str (t' @ '' '' @ upper k))"
    using tableToSQL_temporal [of E u t t' tt "upper k"] by blast
qed

theorem unsupported_discriminants_witness:
  "truthy (Obj [(''type'', Str ''rollup'')]) \<and>
   getp (Obj [(''type'', Str ''rollup'')]) ''type'' \<notin> {Str ''pivot'', Str ''unpivot''} \<and>
   \<not> nullish (Obj [(''keyword'', Str ''before'')]) \<and>
   getp (Obj [(''keyword'', Str ''before'')]) ''keyword''
     \<notin> {Str ''as'', Str ''from_to'', Str ''between_and'', Str ''contained''} \<and>
   operatorToSQL plain (Obj [(''type'', Str ''rollup'')]) = Some (Str []) \<and>
   temporalTableOptionToSQL plain (Obj [(''keyword'', Str ''before'')]) = Some (Str []) \<and>
   tableToSQL plain (Obj [(''table'', Str ''t''), (''as'', Str ''x''),
                          (''operator'', Obj [(''type'', Str ''rollup'')])])
     = Some (Str ''t AS x'') \<and>
   tableToSQL plain (Obj [(''operator'', Undefined), (''table'', Str ''t''), (''as'', Str ''x''),
                          (''operator'', Obj [(''type'', Str ''rollup'')])])
     = Some (Str ''t AS x'') \<and>
   temporalTableToSQL plain (Obj [(''keyword'', Str ''for_system_time''),
                                  (''expr'', Obj [(''keyword'', Str ''before'')])])
     = Some (Str ''FOR_SYSTEM_TIME'') \<and>
   tableToSQL plain (Obj [(''table'', Str ''t''), (''temporal_table'',
       Obj [(''keyword'', Str ''for_system_time''),
            (''expr'', Obj [(''keyword'', Str ''before'')])])])
     = Some (Str ''t FOR_SYSTEM_TIME'')"
  using unsupported_discriminants
    [of "Obj [(''type'', Str ''rollup'')]" plain "Obj [(''keyword'', Str ''before'')]"
        "[(''table'', Str ''t''), (''as'', Str ''x''),
          (''operator'', Obj [(''type'', Str ''rollup'')])]"
        "Obj [(''keyword'', Str ''for_system_time''),
              (''expr'', Obj [(''keyword'', Str ''before'')])]"
        "''for_system_time''" Undefined "''t''" "''t''"]
  by (simp add: renderer_defs helper_defs plain_defs Let_def)

section \<open>Where the renderers raise\<close>

lemma tableHintToSQL_absent: "\<not> truthy v \<Longrightarrow> tableHintToSQL E v = Some Undefined"
  by (simp add: tableHintToSQL_def)

lemma truthy_not_nullish: "truthy v \<Longrightarrow> \<not> nullish v"
  by (cases v) auto

lemma toLowerCase_not_string: "\<not> isString v \<Longrightarrow> toLowerCase v = None"
  by (cases v) (auto simp: toLowerCase_def)

lemma toUpperCase_not_string: "\<not> isString v \<Longrightarrow> toUpperCase v = None"
  by (cases v) (auto simp: toUpperCase_def)

lemma tableHintToSQL_no_keyword:
  assumes "truthy h" and "\<not> isString (getp h ''keyword'')"
  shows "tableHintToSQL E h = None"
  unfolding tableHintToSQL_def
  by (simp only: assms truthy_not_nullish [OF assms(1)] toLowerCase_not_string [OF assms(2)]
      propOf_def not_True_eq_False if_False Option.bind.simps)

lemma tableOptionToSQL_no_keyword:
  assumes "\<not> isString (getp opt ''keyword'')"
  shows "tableOptionToSQL E opt = None"
proof (cases "nullish opt")
  case True
  then show ?thesis
    unfolding tableOptionToSQL_def by (simp only: propOf_def if_True Option.bind.simps)
next
  case False
  then show ?thesis
    unfolding tableOptionToSQL_def
    by (simp only: toUpperCase_not_string [OF assms] propOf_def if_False Option.bind.simps)
qed

lemma temporalTableOptionToSQL_nullish: "nullish v \<Longrightarrow> temporalTableOptionToSQL E v = None"
  by (simp add: temporalTableOptionToSQL_def propOf_def)

lemma temporalTableToSQL_no_expr:
  assumes "truthy tt" and "nullish (getp tt ''expr'')"
  shows "temporalTableToSQL E tt = None"
  using assms truthy_not_nullish [OF assms(1)]
  by (cases "toUpper (getp tt ''keyword'')")
    (simp_all add: temporalTableToSQL_def propOf_def temporalTableOptionToSQL_nullish)

section \<open>Join entries\<close>

lemma joinClause_text: "pred_option isString (joinClause E j)"
  unfolding joinClause_def Let_def
  by (intro pred_bindI pred_ifI) simp

lemma traverse_all:
  "traverse f xs = Some ys \<Longrightarrow> (\<And>x. pred_option P (f x)) \<Longrightarrow> list_all P ys"
proof (induction xs arbitrary: ys)
  case Nil
  then show ?case by simp
next
  case (Cons x xs)
  from Cons.prems(1) obtain y zs where y: "f x = Some y" and zs: "traverse f xs = Some zs"
    and ys: "ys = y # zs"
    by (auto simp: bind_eq_Some_conv)
  from Cons.prems(2) [of x] y have "P y" by simp
  with Cons.IH [OF zs Cons.prems(2)] ys show ?case by simp
qed

lemma intercalate_Nil: "intercalate [] xs = concat xs"
  by (induction "[] :: string" xs rule: intercalate.induct) simp_all

lemma join_no_separator:
  "list_all isString xs \<Longrightarrow> js_join [] (filter hasVal xs) = concat (map toStr xs)"
proof (induction xs)
  case Nil
  then show ?case by (simp add: js_join_def)
next
  case (Cons x xs)
  then obtain s where "x = Str s" by (cases x) auto
  with Cons show ?case
    by (simp add: js_join_def intercalate_Nil hasVal_simps)
qed

lemma joinClause_parts:
  assumes node: "\<not> nullish j"
    and t: "tableToSQL E j = Some (Str tj)" "tj \<noteq> []"
    and jn: "truthy (getp j ''join'') \<longrightarrow> getp j ''join'' = Str jk"
    and on: "truthy (getp j ''on'') \<longrightarrow> exprToSQL E (getp j ''on'') = Some (Str c)"
    and us: "truthy (getp j ''using'') \<longrightarrow>
             js_map (identifierToSql E) (getp j ''using'') = Some cols"
  shows "joinClause E j = Some (Str (
           (if truthy (getp j ''join'') then '' '' @ upper jk else '','') @ '' '' @ tj @
           (if truthy (getp j ''on'') then '' ON '' @ c else []) @
           (if truthy (getp j ''using'') then '' USING ('' @ js_join '', '' cols @ '')'' else [])))"
proof -
  have kw: "(if truthy (getp j ''join'')
             then toUpper (getp j ''join'') \<bind> (\<lambda>u. Some (Str ('' '' @ toStr u)))
             else Some (Str '',''))
      = Some (Str (if truthy (getp j ''join'') then '' '' @ upper jk else '',''))"
    using jn by (cases "truthy (getp j ''join'')") (auto simp: toUpper_Str)
  have cn: "commonOptionConnector (Str ''ON'') (exprToSQL E) (getp j ''on'')
      = Some (Str (if truthy (getp j ''on'') then ''ON '' @ c else []))"
    using on by (simp add: commonOptionConnector_def toUpperCase_def upper_ON)
  have pn: "propOf j f = Some (getp j f)" for f
    using node by (simp add: propOf_def)
  have "joinClause E j = Some (Str (js_join '' '' (filter hasVal
      ([Str (if truthy (getp j ''join'') then '' '' @ upper jk else '',''), Str tj,
        Str (if truthy (getp j ''on'') then ''ON '' @ c else [])] @
       (if truthy (getp j ''using'') then [Str (''USING ('' @ js_join '', '' cols @ '')'')]
        else [])))))"
  proof (cases "truthy (getp j ''using'')")
    case True
    with us have "js_map (identifierToSql E) (getp j ''using'') = Some cols" by simp
    with True show ?thesis
      unfolding joinClause_def
      by (simp only: pn Option.bind.simps, simp only: kw cn t(1) Option.bind.simps if_True,
          simp only: append.simps)
  next
    case False
    then show ?thesis
      unfolding joinClause_def
      by (simp only: pn Option.bind.simps, simp only: kw cn t(1) Option.bind.simps if_False,
          simp only: append.simps)
  qed
  with t(2) show ?thesis
    by (simp add: hasVal_simps js_join_def)
qed

lemma tablesToSQL_chain:
  assumes "getp b ''type'' \<noteq> Str ''dual''" and "tableToSQL E b = Some (Str bs)"
    and "traverse (joinClause E) joins = Some segs"
  shows "tablesToSQL E (Arr (b # joins)) = Some (Str (bs @ concat (map toStr segs)))"
proof -
  from assms(2) have "\<not> nullish b"
    using tableToSQL_nullish [of b E] by auto
  moreover have "list_all isString (Str bs # segs)"
    using traverse_all [OF assms(3), of isString] joinClause_text by simp
  ultimately show ?thesis
    using assms join_no_separator [of "Str bs # segs"]
    by (simp add: tablesToSQL_Cons propOf_def del: filter.simps)
qed

lemma upper_inner_join: "upper ''INNER JOIN'' = ''INNER JOIN''"
  by (simp add: upper_def upper_char_def)

text \<open>
  C5. For a chain entry after the first, \<^verbatim>\<open>tablesToSQL\<close> renders, in this order: a space
  and the uppercased join keyword, or a comma where the join keyword is absent; the
  entry's own table rendering; \<^verbatim>\<open>ON\<close> and the rendered condition where \<open>on\<close> is present;
  \<^verbatim>\<open>USING (\<close>, the rendered columns separated by \<^verbatim>\<open>, \<close> and \<^verbatim>\<open>)\<close> where \<open>using\<close> is present
  (both where both are, \<open>on\<close> first). The chain's output is the base table's rendering
  followed by these texts in the order of the entries. The chain
  \<^verbatim>\<open>[{table: "orders"}, {join: "INNER JOIN", table: "customers", on: cond}]\<close> renders to
  \<^verbatim>\<open>orders INNER JOIN customers ON orders.id = customers.id\<close> where \<open>cond\<close> renders to
  \<^verbatim>\<open>orders.id = customers.id\<close>.
\<close>

theorem join_entry_order:
  "(\<not> nullish j \<and> tableToSQL E j = Some (Str tj) \<and> tj \<noteq> [] \<and>
    (truthy (getp j ''join'') \<longrightarrow> getp j ''join'' = Str jk) \<and>
    (truthy (getp j ''on'') \<longrightarrow> exprToSQL E (getp j ''on'') = Some (Str c)) \<and>
    (truthy (getp j ''using'') \<longrightarrow> js_map (identifierToSql E) (getp j ''using'') = Some cols)
    \<longrightarrow> joinClause E j = Some (Str (
           (if truthy (getp j ''join'') then '' '' @ upper jk else '','') @ '' '' @ tj @
           (if truthy (getp j ''on'') then '' ON '' @ c else []) @
           (if truthy (getp j ''using'') then '' USING ('' @ js_join '', '' cols @ '')'' else [])))) \<and>
   (getp b ''type'' \<noteq> Str ''dual'' \<and> tableToSQL E b = Some (Str bs) \<and>
    traverse (joinClause E) joins = Some segs
    \<longrightarrow> tablesToSQL E (Arr (b # joins)) = Some (Str (bs @ concat (map toStr segs)))) \<and>
   (identifierToSql E Undefined = Some u \<and> \<not> hasVal u \<and>
    identifierToSql E (Str ''orders'') = Some (Str ''orders'') \<and>
    identifierToSql E (Str ''customers'') = Some (Str ''customers'') \<and>
    truthy cond \<and> exprToSQL E cond = Some (Str ''orders.id = customers.id'')
    \<longrightarrow> tablesToSQL E (Arr [Obj [(''table'', Str ''orders'')],
            Obj [(''join'', Str ''INNER JOIN''), (''table'', Str ''customers''), (''on'', cond)]])
          = Some (Str ''orders INNER JOIN customers ON orders.id = customers.id''))"
proof (intro conjI impI)
  assume "\<not> nullish j \<and> tableToSQL E j = Some (Str tj) \<and> tj \<noteq> [] \<and>
    (truthy (getp j ''join'') \<longrightarrow> getp j ''join'' = Str jk) \<and>
    (truthy (getp j ''on'') \<longrightarrow> exprToSQL E (getp j ''on'') = Some (Str c)) \<and>
    (truthy (getp j ''using'') \<longrightarrow> js_map (identifierToSql E) (getp j ''using'') = Some cols)"
  then show "joinClause E j = Some (Str (
           (if truthy (getp j ''join'') then '' '' @ upper jk else '','') @ '' '' @ tj @
           (if truthy (getp j ''on'') then '' ON '' @ c else []) @
           (if truthy (getp j ''using'') then '' USING ('' @ js_join '', '' cols @ '')'' else [])))"
    by (intro joinClause_parts) simp_all
next
  assume "getp b ''type'' \<noteq> Str ''dual'' \<and> tableToSQL E b = Some (Str bs) \<and>
    traverse (joinClause E) joins = Some segs"
  then show "tablesToSQL E (Arr (b # joins)) = Some (Str (bs @ concat (map toStr segs)))"
    by (intro tablesToSQL_chain) simp_all
next
  let ?b = "Obj [(''table'', Str ''orders'')]"
  let ?j = "Obj [(''join'', Str ''INNER JOIN''), (''table'', Str ''customers''), (''on'', cond)]"
  assume h: "identifierToSql E Undefined = Some u \<and> \<not> hasVal u \<and>
    identifierToSql E (Str ''orders'') = Some (Str ''orders'') \<and>
    identifierToSql E (Str ''customers'') = Some (Str ''customers'') \<and>
    truthy cond \<and> exprToSQL E cond = Some (Str ''orders.id = customers.id'')"
  have b: "tableToSQL E ?b = Some (Str ''orders'')"
    using h tableToSQL_names_only [of ?b E u u u "Str ''orders''"]
    by (simp add: and_then_def hasVal_simps js_join_def)
  have j: "tableToSQL E ?j = Some (Str ''customers'')"
    using h tableToSQL_names_only [of ?j E u u u "Str ''customers''"]
    by (simp add: and_then_def hasVal_simps js_join_def)
  have "joinClause E ?j = Some (Str '' INNER JOIN customers ON orders.id = customers.id'')"
    using h joinClause_parts [of ?j E "''customers''" "''INNER JOIN''"
        "''orders.id = customers.id''" "[]", OF _ j]
    by (simp add: upper_inner_join)
  then have "traverse (joinClause E) [?j]
      = Some [Str '' INNER JOIN customers ON orders.id = customers.id'']"
    by simp
  from tablesToSQL_chain [OF _ b this]
  show "tablesToSQL E (Arr [?b, ?j])
          = Some (Str ''orders INNER JOIN customers ON orders.id = customers.id'')"
    by simp
qed

text \<open>
  An entry with a join keyword, \<open>on\<close> and \<open>using\<close>; an entry with a table only; a chain of
  three; and the spec's scenario 2.
\<close>

theorem join_entry_order_witness:
  "tableToSQL plain (Obj [(''join'', Str ''left join''), (''table'', Str ''c''),
       (''on'', Str ''a.id = c.id''), (''using'', Arr [Str ''id'', Str ''day''])])
     = Some (Str ''c'') \<and>
   exprToSQL plain (Str ''a.id = c.id'') = Some (Str ''a.id = c.id'') \<and>
   js_map (identifierToSql plain) (Arr [Str ''id'', Str ''day'']) = Some [Str ''id'', Str ''day''] \<and>
   traverse (joinClause plain) [Obj [(''table'', Str ''b'')],
       Obj [(''join'', Str ''left join''), (''table'', Str ''c''), (''using'', Arr [Str ''id''])]]
     = Some [Str '', b'', Str '' LEFT JOIN c USING (id)''] \<and>
   joinClause plain (Obj [(''join'', Str ''left join''), (''table'', Str ''c''),
       (''on'', Str ''a.id = c.id''), (''using'', Arr [Str ''id'', Str ''day''])])
     = Some (Str '' LEFT JOIN c ON a.id = c.id USING (id, day)'') \<and>
   joinClause plain (Obj [(''table'', Str ''c'')]) = Some (Str '', c'') \<and>
   tablesToSQL plain (Arr [Obj [(''table'', Str ''a'')], Obj [(''table'', Str ''b'')],
       Obj [(''join'', Str ''left join''), (''table'', Str ''c''), (''using'', Arr [Str ''id''])]])
     = Some (Str ''a, b LEFT JOIN c USING (id)'') \<and>
   tablesToSQL plain (Arr [Obj [(''table'', Str ''orders'')],
       Obj [(''join'', Str ''INNER JOIN''), (''table'', Str ''customers''),
            (''on'', Str ''orders.id = customers.id'')]])
     = Some (Str ''orders INNER JOIN customers ON orders.id = customers.id'')"
  using
    join_entry_order [of "Obj [(''join'', Str ''left join''), (''table'', Str ''c''),
       (''on'', Str ''a.id = c.id''), (''using'', Arr [Str ''id'', Str ''day''])]" plain "''c''"
       "''left join''" "''a.id = c.id''" "[Str ''id'', Str ''day'']"
       "Obj [(''table'', Str ''a'')]" "''a''"
       "[Obj [(''table'', Str ''b'')],
         Obj [(''join'', Str ''left join''), (''table'', Str ''c''), (''using'', Arr [Str ''id''])]]"
       "[Str '', b'', Str '' LEFT JOIN c USING (id)'']"
       Undefined "Str ''orders.id = customers.id''"]
    join_entry_order [of "Obj [(''table'', Str ''c'')]" plain "''c''" "[]" "[]" "[]"]
  by (simp add: renderer_defs helper_defs plain_defs Let_def)

section \<open>Case of the type tags\<close>

lemma tablesToSQL_not_dual:
  assumes "getp b ''type'' \<noteq> Str ''dual''"
  shows "tablesToSQL E (Arr (b # joins)) =
     Option.bind (tableToSQL E b) (\<lambda>base.
       Option.bind (traverse (joinClause E) joins) (\<lambda>rest.
         Some (Str (js_join [] (filter hasVal (base # rest))))))"
proof (cases "nullish b")
  case True
  then show ?thesis by (simp add: tablesToSQL_Cons tableToSQL_nullish propOf_def)
next
  case False
  with assms show ?thesis by (simp add: tablesToSQL_Cons propOf_def del: filter.simps)
qed

lemma tablesToSQL_single:
  assumes "getp b ''type'' \<noteq> Str ''dual''"
  shows "tablesToSQL E (Arr [b]) = tableToSQL E b"
proof (cases "tableToSQL E b")
  case None
  then show ?thesis by (simp add: tablesToSQL_not_dual [OF assms])
next
  case (Some r)
  then obtain s where "r = Str s" using tableToSQL_is_Str by blast
  with Some show ?thesis
    using join_single [of "[]" s]
    by (simp add: tablesToSQL_not_dual [OF assms] del: filter.simps)
qed

text \<open>
  C10. The dual short-circuit of \<^verbatim>\<open>tablesToSQL\<close> compares the first entry's type with the
  lowercase string \<^verbatim>\<open>dual\<close> exactly: with any other type (\<^verbatim>\<open>DUAL\<close>, \<^verbatim>\<open>Dual\<close>, none) a chain
  of any length falls through to ordinary table rendering. The first entry is rendered by
  \<^verbatim>\<open>tableToSQL\<close>, every later entry as a join clause, and the kept results are concatenated
  (where the renderers return, the text of the first entry followed by the join clauses); a
  one-entry chain renders as \<^verbatim>\<open>tableToSQL\<close> renders the entry. The UNNEST dispatch of
  \<^verbatim>\<open>tableToSQL\<close> compares the uppercased type: a type in any casing of \<^verbatim>\<open>unnest\<close> is
  rendered by \<^verbatim>\<open>unnestToSQL\<close>.
\<close>

theorem dual_case_sensitive:
  "(getp b ''type'' \<noteq> Str ''dual'' \<longrightarrow>
      tablesToSQL E (Arr (b # joins)) =
        Option.bind (tableToSQL E b) (\<lambda>base.
          Option.bind (traverse (joinClause E) joins) (\<lambda>rest.
            Some (Str (js_join [] (filter hasVal (base # rest)))))) \<and>
      tablesToSQL E (Arr [b]) = tableToSQL E b) \<and>
   (getp b ''type'' \<noteq> Str ''dual'' \<and> tableToSQL E b = Some (Str bs) \<and>
    traverse (joinClause E) joins = Some segs \<longrightarrow>
      tablesToSQL E (Arr (b # joins)) = Some (Str (bs @ concat (map toStr segs)))) \<and>
   (getp n ''type'' = Str t \<and> upper t = ''UNNEST'' \<longrightarrow> tableToSQL E n = unnestToSQL E n)"
  using tablesToSQL_not_dual [of b E joins] tablesToSQL_single [of b E]
    tablesToSQL_chain [of b E bs joins segs] tableToSQL_unnest [of n t E]
  by blast

text \<open>
  A first entry of type \<^verbatim>\<open>DUAL\<close> is rendered as a table reference (here the table \<^verbatim>\<open>d\<close>),
  alone and before a second entry, and the type \<^verbatim>\<open>Unnest\<close> selects the UNNEST renderer.
\<close>

theorem dual_case_sensitive_witness:
  "getp (Obj [(''type'', Str ''DUAL''), (''table'', Str ''d'')]) ''type'' \<noteq> Str ''dual'' \<and>
   tableToSQL plain (Obj [(''type'', Str ''DUAL''), (''table'', Str ''d'')]) = Some (Str ''d'') \<and>
   traverse (joinClause plain) [Obj [(''table'', Str ''x'')]] = Some [Str '', x''] \<and>
   tablesToSQL plain (Arr [Obj [(''type'', Str ''DUAL''), (''table'', Str ''d'')],
      Obj [(''table'', Str ''x'')]]) = Some (Str ''d, x'') \<and>
   tablesToSQL plain (Arr [Obj [(''type'', Str ''DUAL''), (''table'', Str ''d'')]])
     = Some (Str ''d'') \<and>
   getp (Obj [(''type'', Str ''Unnest''), (''expr'', Str ''tags'')]) ''type'' = Str ''Unnest'' \<and>
   upper ''Unnest'' = ''UNNEST'' \<and>
   tableToSQL plain (Obj [(''type'', Str ''Unnest''), (''expr'', Str ''tags'')])
     = Some (Str ''UNNEST(tags)'') \<and>
   unnestToSQL plain (Obj [(''type'', Str ''Unnest''), (''expr'', Str ''tags'')])
     = Some (Str ''UNNEST(tags)'')"
  using dual_case_sensitive
    [of "Obj [(''type'', Str ''DUAL''), (''table'', Str ''d'')]" plain
        "[Obj [(''table'', Str ''x'')]]" "''d''" "[Str '', x'']"
        "Obj [(''type'', Str ''Unnest''), (''expr'', Str ''tags'')]" "''Unnest''"]
  by (simp add: renderer_defs helper_defs plain_defs Let_def)

section \<open>Qualified names\<close>

text \<open>
  C9 claims that every table reference whose optional fields (\<open>expr\<close>, \<open>as\<close>, \<open>prefix\<close>,
  \<open>suffix\<close>, \<open>parentheses\<close>, \<open>tablesample\<close>, \<open>temporal_table\<close>, \<open>table_hint\<close>, \<open>operator\<close>) are
  absent renders to its qualified name. The reference \<^verbatim>\<open>{type: "unnest", table: "orders"}\<close>
  has all of them absent and renders to \<^verbatim>\<open>UNNEST()\<close>, not to \<^verbatim>\<open>orders\<close>.
\<close>

theorem qualified_name_counterexample:
  "list_all (\<lambda>k. \<not> truthy (getp (Obj [(''type'', Str ''unnest''), (''table'', Str ''orders'')]) k))
     [''expr'', ''as'', ''prefix'', ''suffix'', ''parentheses'', ''tablesample'',
      ''temporal_table'', ''table_hint'', ''operator''] \<and>
   tableToSQL plain (Obj [(''type'', Str ''unnest''), (''table'', Str ''orders'')])
     = Some (Str ''UNNEST()'') \<and>
   tableToSQL plain (Obj [(''type'', Str ''unnest''), (''table'', Str ''orders'')])
     \<noteq> Some (Str ''orders'')"
  by (simp add: renderer_defs helper_defs plain_defs Let_def)

text \<open>
  C9, amended. A table reference whose type tag is absent or uppercases to a text other
  than \<^verbatim>\<open>UNNEST\<close>, and whose optional fields (\<open>expr\<close>, \<open>as\<close>, \<open>prefix\<close>, \<open>suffix\<close>,
  \<open>parentheses\<close>, \<open>tablesample\<close>, \<open>temporal_table\<close>, \<open>table_hint\<close>, \<open>operator\<close>) are absent,
  renders to exactly its qualified name: the rendered \<open>server\<close>, \<open>db\<close>, \<open>schema\<close> and \<open>table\<close>
  that are present, in this order, joined with \<^verbatim>\<open>.\<close>, and nothing else. With an alias
  only, \<^verbatim>\<open>{table: t, as: a}\<close> renders to the table's name, \<^verbatim>\<open> AS \<close> and the alias (given that
  the identifier renderer renders an absent name as nothing).
\<close>

theorem qualified_name_only:
  assumes "\<not> nullish n"
    and "toUpper (getp n ''type'') = Some ut" and "ut \<noteq> Str ''UNNEST''"
    and "list_all (\<lambda>k. \<not> truthy (getp n k))
       [''expr'', ''as'', ''prefix'', ''suffix'', ''parentheses'', ''tablesample'',
        ''temporal_table'', ''table_hint'', ''operator'']"
    and "identifierToSql E (getp n ''server'') = Some sv"
    and "identifierToSql E (getp n ''db'') = Some dv"
    and "identifierToSql E (getp n ''schema'') = Some cv"
    and "and_then (getp n ''table'') (identifierToSql E (getp n ''table'')) = Some tn"
    and "isString tn \<or> \<not> truthy tn"
  shows "tableToSQL E n = Some (Str (js_join ''.'' (filter hasVal [sv, dv, cv, tn]))) \<and>
    (identifierToSql E Undefined = Some u \<and> \<not> hasVal u \<and>
     identifierToSql E (Str t) = Some (Str t') \<and> t \<noteq> [] \<and> t' \<noteq> [] \<and>
     identifierToSql E (Str a) = Some (Str a') \<and> a \<noteq> [] \<longrightarrow>
     tableToSQL E (Obj [(''table'', Str t), (''as'', Str a)]) = Some (Str (t' @ '' AS '' @ a')))"
  using tableToSQL_names_any_tag [OF assms] tableToSQL_aliased [of E u t t' a a'] by blast

text \<open>
  With identifiers rendered as they are written: \<^verbatim>\<open>srv.shop.orders\<close> without a type tag,
  \<^verbatim>\<open>shop.orders\<close> with the type tag \<^verbatim>\<open>table\<close>, and the spec's scenario 1, \<^verbatim>\<open>orders AS o\<close>.
\<close>

theorem qualified_name_only_witness:
  "tableToSQL plain (Obj [(''server'', Str ''srv''), (''db'', Str ''shop''), (''table'', Str ''orders'')])
     = Some (Str ''srv.shop.orders'') \<and>
   toUpper (Str ''table'') = Some (Str ''TABLE'') \<and>
   tableToSQL plain (Obj [(''type'', Str ''table''), (''db'', Str ''shop''), (''table'', Str ''orders'')])
     = Some (Str ''shop.orders'') \<and>
   tableToSQL plain (Obj [(''table'', Str ''orders''), (''as'', Str ''o'')]) = Some (Str ''orders AS o'')"
  using
    qualified_name_only
      [of "Obj [(''server'', Str ''srv''), (''db'', Str ''shop''), (''table'', Str ''orders'')]"
        Undefined plain "Str ''srv''" "Str ''shop''" Undefined "Str ''orders''" Undefined
        "''orders''" "''orders''" "''o''" "''o''"]
    qualified_name_only
      [of "Obj [(''type'', Str ''table''), (''db'', Str ''shop''), (''table'', Str ''orders'')]"
        "Str ''TABLE''" plain Undefined "Str ''shop''" Undefined "Str ''orders''" Undefined
        "''orders''" "''orders''" "''o''" "''o''"]
  by (simp add: helper_defs plain_defs)

section \<open>UNNEST\<close>

lemma upper_char_idem: "upper_char (upper_char c) = upper_char c"
  by (simp add: upper_char_def)

lemma upper_idem: "upper (upper s) = upper s"
  by (simp add: upper_def upper_char_idem)

text \<open>
  C7 claims that the node \<^verbatim>\<open>{type: "unnest", expr: tags, as: "t", with_offset: {keyword:
  "offset", as: "pos"}}\<close> renders to \<^verbatim>\<open>UNNEST(tags) AS t WITH OFFSET AS pos\<close>. It renders to
  \<^verbatim>\<open>UNNEST(tags) AS t OFFSET pos\<close>.
\<close>

theorem unnest_with_offset_counterexample:
  "unnestToSQL plain (Obj [(''type'', Str ''unnest''), (''expr'', Str ''tags''), (''as'', Str ''t''),
      (''with_offset'', Obj [(''keyword'', Str ''offset''), (''as'', Str ''pos'')])])
     = Some (Str ''UNNEST(tags) AS t OFFSET pos'') \<and>
   unnestToSQL plain (Obj [(''type'', Str ''unnest''), (''expr'', Str ''tags''), (''as'', Str ''t''),
      (''with_offset'', Obj [(''keyword'', Str ''offset''), (''as'', Str ''pos'')])])
     \<noteq> Some (Str ''UNNEST(tags) AS t WITH OFFSET AS pos'')"
  by (simp add: renderer_defs helper_defs plain_defs Let_def)

text \<open>
  C7, amended. For an UNNEST node \<^verbatim>\<open>unnestToSQL\<close> emits the uppercased type tag and the
  rendered \<open>expr\<close> in parentheses (nothing between them where \<open>expr\<close> is absent or renders
  to nothing), then \<^verbatim>\<open> AS \<close> and the rendered alias where \<open>as\<close> is present, then, where
  \<open>with_offset\<close> is present and has an alias \<open>as\<close>, one space, its uppercased keyword, one
  space and its rendered alias. Where \<open>with_offset\<close> or its alias is absent no offset
  clause is emitted, whatever the keyword. The renderer adds no \<^verbatim>\<open>WITH\<close> and no \<^verbatim>\<open>AS\<close> to
  the offset clause: they are in the output only as words of the keyword. This holds where
  the type tag is a non-empty text, the keyword of \<open>with_offset\<close> is a non-empty text where
  the alias is present and a text or absent where it is not, and the collaborators return.
\<close>

theorem unnest_rendering:
  assumes ty: "getp n ''type'' = Str ty" "ty \<noteq> []"
    and e: "truthy (getp n ''expr'') \<longrightarrow> exprToSQL E (getp n ''expr'') = Some e"
    and a: "truthy (getp n ''as'') \<longrightarrow>
            (if isString (getp n ''as'') then identifierToSql E else exprToSQL E) (getp n ''as'')
              = Some a"
    and w1: "truthy (getp n ''with_offset'') \<and> \<not> truthy (getp (getp n ''with_offset'') ''as'')
             \<longrightarrow> toUpper (getp (getp n ''with_offset'') ''keyword'') \<noteq> None"
    and w2: "truthy (getp n ''with_offset'') \<and> truthy (getp (getp n ''with_offset'') ''as'')
             \<longrightarrow> getp (getp n ''with_offset'') ''keyword'' = Str wk \<and> wk \<noteq> [] \<and>
                 identifierToSql E (getp (getp n ''with_offset'') ''as'') = Some w"
  shows "unnestToSQL E n = Some (Str (upper ty @ ''('' @
           (if truthy (getp n ''expr'') \<and> truthy e then toStr e else []) @ '')'' @
           (if truthy (getp n ''as'') then '' AS '' @ toStr a else []) @
           (if truthy (getp n ''with_offset'') \<and> truthy (getp (getp n ''with_offset'') ''as'')
            then '' '' @ upper wk @ '' '' @ toStr w else [])))"
proof -
  let ?wo = "getp n ''with_offset''"
  let ?on = "truthy ?wo \<and> truthy (getp ?wo ''as'')"
  from ty have n: "\<not> nullish n" using getp_Str_not_nullish by blast
  have head: "and_then (getp n ''expr'') (exprToSQL E (getp n ''expr''))
      = Some (if truthy (getp n ''expr'') then e else getp n ''expr'')"
    using e by (simp add: and_then_def)
  have al: "commonOptionConnector (Str ''AS'')
      (if isString (getp n ''as'') then identifierToSql E else exprToSQL E) (getp n ''as'')
      = Some (Str (if truthy (getp n ''as'') then ''AS '' @ toStr a else []))"
    using a by (simp add: commonOptionConnector_def toUpperCase_def upper_AS)
  have wk: "and_then ?wo (propOf ?wo ''keyword'')
      = Some (if truthy ?wo then getp ?wo ''keyword'' else ?wo)"
    by (auto simp: and_then_def propOf_def dest: truthy_not_nullish)
  have wa: "and_then ?wo (propOf ?wo ''as'') = Some (if truthy ?wo then getp ?wo ''as'' else ?wo)"
    by (auto simp: and_then_def propOf_def dest: truthy_not_nullish)
  have "\<exists>K. toUpper (if truthy ?wo then getp ?wo ''keyword'' else ?wo) = Some K \<and>
           (?on \<longrightarrow> K = Str (upper wk))"
  proof (cases "truthy ?wo")
    case False
    then show ?thesis by (simp add: toUpper_absent)
  next
    case True
    show ?thesis
    proof (cases "truthy (getp ?wo ''as'')")
      case False
      with True w1 show ?thesis by auto
    next
      case hasAs: True
      with True w2 show ?thesis by (simp add: toUpper_Str)
    qed
  qed
  then obtain K where k: "toUpper (if truthy ?wo then getp ?wo ''keyword'' else ?wo) = Some K"
    and K: "?on \<longrightarrow> K = Str (upper wk)"
    by blast
  have offset: "commonOptionConnector K (identifierToSql E)
        (if truthy ?wo then getp ?wo ''as'' else ?wo)
      = Some (Str (if ?on then upper wk @ '' '' @ toStr w else []))"
  proof (cases ?on)
    case True
    with w2 K show ?thesis
      by (simp add: commonOptionConnector_def toUpperCase_def upper_idem upper_Nil)
  next
    case False
    then have "\<not> truthy (if truthy ?wo then getp ?wo ''as'' else ?wo)" by auto
    with False show ?thesis by (simp add: connector_absent)
  qed
  have "unnestToSQL E n = Some (Str (js_join '' '' (filter hasVal
      [Str (upper ty @ ''('' @
              (if truthy (getp n ''expr'') \<and> truthy e then toStr e else []) @ '')''),
       Str (if truthy (getp n ''as'') then ''AS '' @ toStr a else []),
       Str (if ?on then upper wk @ '' '' @ toStr w else [])])))"
  proof -
    have pn: "propOf n f = Some (getp n f)" for f
      using n by (simp add: propOf_def)
    have ut: "toUpper (Str ty) = Some (Str (upper ty))"
      using ty(2) by (simp add: toUpper_Str)
    have "toStr (if truthy (if truthy (getp n ''expr'') then e else getp n ''expr'')
                 then (if truthy (getp n ''expr'') then e else getp n ''expr'') else Str [])
        = (if truthy (getp n ''expr'') \<and> truthy e then toStr e else [])"
      by simp
    then show ?thesis
      unfolding unnestToSQL_def
      by (simp only: pn ty(1) ut head al wk wa k offset Let_def Option.bind.simps toStr.simps)
  qed
  then show ?thesis
    by (simp add: hasVal_simps js_join_def)
qed

text \<open>
  The spec's scenario 3 as the code renders it, the node whose keyword is
  \<^verbatim>\<open>with offset as\<close>, a \<open>with_offset\<close> without alias, and the node with the type tag alone.
\<close>

theorem unnest_rendering_witness:
  "unnestToSQL plain (Obj [(''type'', Str ''unnest''), (''expr'', Str ''tags''), (''as'', Str ''t''),
      (''with_offset'', Obj [(''keyword'', Str ''offset''), (''as'', Str ''pos'')])])
     = Some (Str ''UNNEST(tags) AS t OFFSET pos'') \<and>
   unnestToSQL plain (Obj [(''type'', Str ''unnest''), (''expr'', Str ''tags''), (''as'', Str ''t''),
      (''with_offset'', Obj [(''keyword'', Str ''with offset as''), (''as'', Str ''pos'')])])
     = Some (Str ''UNNEST(tags) AS t WITH OFFSET AS pos'') \<and>
   unnestToSQL plain (Obj [(''type'', Str ''unnest''), (''expr'', Str ''tags''), (''as'', Str ''t''),
      (''with_offset'', Obj [(''keyword'', Str ''with offset'')])])
     = Some (Str ''UNNEST(tags) AS t'') \<and>
   unnestToSQL plain (Obj [(''type'', Str ''unnest'')]) = Some (Str ''UNNEST()'')"
  using
    unnest_rendering [of "Obj [(''type'', Str ''unnest''), (''expr'', Str ''tags''),
      (''as'', Str ''t''), (''with_offset'', Obj [(''keyword'', Str ''offset''), (''as'', Str ''pos'')])]"
      "''unnest''" plain "Str ''tags''" "Str ''t''" "''offset''" "Str ''pos''"]
    unnest_rendering [of "Obj [(''type'', Str ''unnest''), (''expr'', Str ''tags''),
      (''as'', Str ''t''),
      (''with_offset'', Obj [(''keyword'', Str ''with offset as''), (''as'', Str ''pos'')])]"
      "''unnest''" plain "Str ''tags''" "Str ''t''" "''with offset as''" "Str ''pos''"]
    unnest_rendering [of "Obj [(''type'', Str ''unnest''), (''expr'', Str ''tags''),
      (''as'', Str ''t''), (''with_offset'', Obj [(''keyword'', Str ''with offset'')])]"
      "''unnest''" plain "Str ''tags''" "Str ''t''" "[]" Undefined]
    unnest_rendering [of "Obj [(''type'', Str ''unnest'')]" "''unnest''" plain
      Undefined Undefined "[]" Undefined]
  by (simp add: helper_defs plain_defs)

section \<open>TABLESAMPLE\<close>






section \<open>Where no renderer raises\<close>

lemma ok_bind: "m \<noteq> None \<Longrightarrow> (\<And>x. m = Some x \<Longrightarrow> f x \<noteq> None) \<Longrightarrow> Option.bind m f \<noteq> None"
  by (cases m) auto

lemma ok_if: "(c \<Longrightarrow> a \<noteq> None) \<Longrightarrow> (\<not> c \<Longrightarrow> b \<noteq> None) \<Longrightarrow> (if c then a else b) \<noteq> None"
  by simp

lemma ok_traverse: "(\<And>x. x \<in> set xs \<Longrightarrow> f x \<noteq> None) \<Longrightarrow> traverse f xs \<noteq> None"
  by (induction xs) (auto simp: bind_eq_None_conv)

lemma ok_js_map: "isArray v \<Longrightarrow> (\<And>x. f x \<noteq> None) \<Longrightarrow> js_map f v \<noteq> None"
proof -
  assume a: "isArray v" and f: "\<And>x. f x \<noteq> None"
  from a obtain xs where "v = Arr xs" by (cases v) auto
  with ok_traverse [of xs f] f show ?thesis by (simp add: js_map_def)
qed

lemma ok_toUpper: "text_or_absent v \<Longrightarrow> toUpper v \<noteq> None"
  by (cases v) (auto simp: text_or_absent_def toUpper_def toUpperCase_def)

lemma toUpper_result: "toUpper v = Some k \<Longrightarrow> text_or_absent k"
  by (cases v) (auto simp: text_or_absent_def toUpper_def toUpperCase_def split: if_splits)

lemma ok_connector:
  "(\<And>x. f x \<noteq> None) \<Longrightarrow> text_or_absent k \<Longrightarrow> commonOptionConnector k f v \<noteq> None"
proof -
  assume f: "\<And>x. f x \<noteq> None" and k: "text_or_absent k"
  show ?thesis
  proof (cases "truthy v \<and> truthy k")
    case False
    with f show ?thesis by (auto simp: commonOptionConnector_def)
  next
    case True
    with k obtain s where "k = Str s" by (cases k) (auto simp: text_or_absent_def)
    moreover from f [of v] obtain r where "f v = Some r" by auto
    ultimately show ?thesis
      using True by (simp add: commonOptionConnector_def toUpperCase_def)
  qed
qed

lemma ok_and_then: "(truthy a \<Longrightarrow> b \<noteq> None) \<Longrightarrow> and_then a b \<noteq> None"
  by (simp add: and_then_def)

lemma propOf_ok: "\<not> nullish n \<Longrightarrow> propOf n f = Some (getp n f)"
  by (simp add: propOf_def)

lemma text_AS: "text_or_absent (Str s)"
  by (simp add: text_or_absent_def)

lemma temporalTableOptionToSQL_ok:
  assumes "\<And>v. exprToSQL E v \<noteq> None" and "\<not> nullish stmt"
  shows "temporalTableOptionToSQL E stmt \<noteq> None"
  unfolding temporalTableOptionToSQL_def
  by (simp only: propOf_ok [OF assms(2)] Option.bind.simps)
    (intro ok_bind ok_if assms(1); simp)

lemma temporalTableToSQL_ok:
  assumes "\<And>v. exprToSQL E v \<noteq> None" and "temporal_ok tt"
  shows "temporalTableToSQL E tt \<noteq> None"
proof (cases "truthy tt")
  case False
  then show ?thesis by (simp add: temporalTableToSQL_absent)
next
  case True
  with assms(2) have k: "text_or_absent (getp tt ''keyword'')" and e: "\<not> nullish (getp tt ''expr'')"
    by (simp_all add: temporal_ok_def)
  from True show ?thesis
    unfolding temporalTableToSQL_def
    by (simp only: propOf_ok [OF truthy_not_nullish [OF True]] Option.bind.simps
        not_True_eq_False if_False)
      (intro ok_bind ok_toUpper k temporalTableOptionToSQL_ok assms(1) e; simp)
qed

lemma pivotOperatorToSQL_ok:
  assumes "\<And>v. exprToSQL E v \<noteq> None" and "\<And>v. columnRefToSQL E v \<noteq> None"
    and "\<And>v. binaryToSQL E v \<noteq> None" and "\<And>v. identifierToSql E v \<noteq> None"
    and "\<not> nullish v" and "text_or_absent (getp v ''type'')"
  shows "pivotOperatorToSQL E v \<noteq> None"
  unfolding pivotOperatorToSQL_def Let_def
  by (simp only: propOf_ok [OF assms(5)] Option.bind.simps)
    (intro ok_bind ok_if assms(1-4) ok_toUpper assms(6); simp)

lemma operatorToSQL_ok:
  assumes "\<And>v. exprToSQL E v \<noteq> None" and "\<And>v. columnRefToSQL E v \<noteq> None"
    and "\<And>v. binaryToSQL E v \<noteq> None" and "\<And>v. identifierToSql E v \<noteq> None"
  shows "operatorToSQL E v \<noteq> None"
proof (cases "truthy v")
  case False
  then show ?thesis by (simp add: operatorToSQL_absent)
next
  case True
  then have n: "\<not> nullish v" by (rule truthy_not_nullish)
  show ?thesis
  proof (cases "getp v ''type'' = Str ''pivot'' \<or> getp v ''type'' = Str ''unpivot''")
    case False
    with True n show ?thesis by (simp add: operatorToSQL_def propOf_def)
  next
    case pv: True
    then have "text_or_absent (getp v ''type'')" by (auto simp: text_or_absent_def)
    from pivotOperatorToSQL_ok [OF assms n this] True n pv show ?thesis
      by (simp add: operatorToSQL_def propOf_def)
  qed
qed


lemma tableTumbleToSQL_ok:
  assumes "\<And>v. identifierToSql E v \<noteq> None" and "\<And>v. columnRefToSQL E v \<noteq> None"
    and "\<And>v. intervalToSQL E v \<noteq> None" and "truthy t" and "\<not> nullish (getp t ''data'')"
  shows "tableTumbleToSQL E t \<noteq> None"
  unfolding tableTumbleToSQL_def Let_def
  by (simp only: assms(4) propOf_ok [OF truthy_not_nullish [OF assms(4)]] propOf_ok [OF assms(5)]
      Option.bind.simps not_True_eq_False if_False)
    (intro ok_bind assms(1-3); simp)

lemma call_join_ok: "isArray r \<Longrightarrow> call_join r sep \<noteq> None"
  by (cases r) (auto simp: call_join_def)

lemma generateVirtualTable_ok:
  assumes "\<And>v. commonTypeValue E v \<noteq> None"
    and "\<And>v r. commonTypeValue E v = Some r \<Longrightarrow> isArray r"
    and "\<not> nullish g" and "isArray (getp g ''generators'')"
    and "text_or_absent (getp g ''keyword'')" and "text_or_absent (getp g ''type'')"
  shows "generateVirtualTable E g \<noteq> None"
proof -
  have "(do { triple \<leftarrow> commonTypeValue E x; call_join triple '' '' }) \<noteq> None" for x
    by (intro ok_bind assms(1) call_join_ok assms(2))
  from ok_js_map [OF assms(4), of "\<lambda>x. do { triple \<leftarrow> commonTypeValue E x; call_join triple '' '' }",
      OF this]
  show ?thesis
    unfolding generateVirtualTable_def Let_def
    by (simp only: propOf_ok [OF assms(3)] Option.bind.simps)
      (intro ok_bind ok_toUpper assms(5,6); simp)
qed

lemma tableHintToSQL_ok:
  assumes "\<And>v. exprToSQL E v \<noteq> None" and "\<And>v. identifierToSql E v \<noteq> None"
    and "hint_ok h"
  shows "tableHintToSQL E h \<noteq> None"
proof (cases "truthy h")
  case False
  then show ?thesis by (simp add: tableHintToSQL_absent)
next
  case True
  with assms(3) obtain k where k: "getp h ''keyword'' = Str k"
    by (cases "getp h ''keyword''") (auto simp: hint_ok_def)
  have lk: "toLowerCase (Str k) = Some (Str (lower k))"
    by (simp add: toLowerCase_def)
  have uk: "toUpper (Str k) \<noteq> None"
    by (intro ok_toUpper text_AS)
  from True k assms(3) have
    fs: "lower k = ''forceseek'' \<Longrightarrow> isArray (getp h ''index_columns'')" and
    ix: "lower k = ''index'' \<Longrightarrow> text_or_absent (getp h ''prefix'')" and
    ip: "lower k = ''index'' \<Longrightarrow> truthy (getp h ''parentheses'') \<Longrightarrow> isArray (getp h ''expr'')"
    by (auto simp: hint_ok_def split: if_splits)
  show ?thesis
    unfolding tableHintToSQL_def
    by (simp only: True propOf_ok [OF truthy_not_nullish [OF True]] k lk Option.bind.simps
        not_True_eq_False if_False jsval.inject)
      (intro ok_bind ok_if uk assms(1,2) ok_js_map ok_toUpper fs ix ip; simp)
qed

lemma unnestToSQL_ok:
  assumes "\<And>v. exprToSQL E v \<noteq> None" and "\<And>v. identifierToSql E v \<noteq> None"
    and "\<not> nullish n" and "text_or_absent (getp n ''type'')"
    and "offset_ok (getp n ''with_offset'')"
  shows "unnestToSQL E n \<noteq> None"
proof -
  let ?wo = "getp n ''with_offset''"
  have act: "(if isString (getp n ''as'') then identifierToSql E else exprToSQL E) x \<noteq> None" for x
    using assms(1,2) by simp
  have wk: "and_then ?wo (propOf ?wo ''keyword'')
      = Some (if truthy ?wo then getp ?wo ''keyword'' else ?wo)"
    by (auto simp: and_then_def propOf_def dest: truthy_not_nullish)
  have wa: "and_then ?wo (propOf ?wo ''as'') = Some (if truthy ?wo then getp ?wo ''as'' else ?wo)"
    by (auto simp: and_then_def propOf_def dest: truthy_not_nullish)
  have t: "text_or_absent (if truthy ?wo then getp ?wo ''keyword'' else ?wo)"
    using assms(5) by (auto simp: offset_ok_def text_or_absent_def)
  show ?thesis
    unfolding unnestToSQL_def Let_def
    by (simp only: propOf_ok [OF assms(3)] wk wa Option.bind.simps)
      (intro ok_bind ok_toUpper assms(4) ok_and_then assms(1) ok_connector act assms(2) text_AS t
        toUpper_result; simp)
qed


lemma toUpper_accepts: "toUpper v = Some k \<Longrightarrow> text_or_absent v"
  by (cases v) (auto simp: text_or_absent_def toUpper_def toUpperCase_def split: if_splits)

lemma call_split_ok: "isString v \<Longrightarrow> call_split v c \<noteq> None"
  by (cases v) (auto simp: call_split_def)

lemma hints_map_ok:
  assumes "\<And>v. exprToSQL E v \<noteq> None" and "\<And>v. identifierToSql E v \<noteq> None"
    and "hints_ok th" and "truthy th"
  shows "js_map (tableHintToSQL E) (getp th ''expr'') \<noteq> None"
proof -
  from assms(3,4) obtain hs where hs: "getp th ''expr'' = Arr hs" and ok: "list_all hint_ok hs"
    by (cases "getp th ''expr''") (auto simp: hints_ok_def)
  have "traverse (tableHintToSQL E) hs \<noteq> None"
  proof (rule ok_traverse)
    fix x assume "x \<in> set hs"
    with ok have "hint_ok x" by (simp add: list_all_iff)
    then show "tableHintToSQL E x \<noteq> None" by (rule tableHintToSQL_ok [OF assms(1,2)])
  qed
  with hs show ?thesis by (simp add: js_map_def)
qed

lemma tableToSQL_ok:
  assumes ex: "\<And>v. exprToSQL E v \<noteq> None" and idt: "\<And>v. identifierToSql E v \<noteq> None"
    and col: "\<And>v. columnRefToSQL E v \<noteq> None" and bin: "\<And>v. binaryToSQL E v \<noteq> None"
    and itv: "\<And>v. intervalToSQL E v \<noteq> None" and lit: "\<And>v. literalToSQL E v \<noteq> None"
    and vals: "\<And>v. valuesToSQL E v \<noteq> None" and ctv: "\<And>v. commonTypeValue E v \<noteq> None"
    and vtext: "\<And>v r. valuesToSQL E v = Some r \<Longrightarrow> isString r"
    and clist: "\<And>v r. commonTypeValue E v = Some r \<Longrightarrow> isArray r"
    and ok: "reference_ok n"
  shows "tableToSQL E n \<noteq> None"
proof -
  from ok have n: "\<not> nullish n" by (simp add: reference_ok_def)
  from ok obtain ut where ut: "toUpper (getp n ''type'') = Some ut"
    by (cases "toUpper (getp n ''type'')") (auto simp: reference_ok_def)
  show ?thesis
  proof (cases "ut = Str ''UNNEST''")
    case True
    with ok ut have "offset_ok (getp n ''with_offset'')" by (simp add: reference_ok_def)
    then have u: "unnestToSQL E n \<noteq> None"
      by (rule unnestToSQL_ok [OF ex idt n toUpper_accepts [OF ut]])
    have "tableToSQL E n = unnestToSQL E n"
      unfolding tableToSQL_def
      by (simp only: propOf_ok [OF n] ut True Option.bind.simps if_True refl)
    with u show ?thesis by simp
  next
    case False
    let ?e = "getp n ''expr''" and ?th = "getp n ''table_hint''"
    from ok ut False have body: "body_ok ?e" and pre: "text_or_absent (getp n ''prefix'')"
      and suf: "text_or_absent (getp n ''suffix'')" and tmp: "temporal_ok (getp n ''temporal_table'')"
      and hints: "hints_ok ?th"
      by (simp_all add: reference_ok_def)
    from body have
      b1: "truthy ?e \<Longrightarrow> getp ?e ''type'' = Str ''values'' \<Longrightarrow> text_or_absent (getp ?e ''prefix'')" and
      b2: "truthy ?e \<Longrightarrow> getp ?e ''type'' \<noteq> Str ''values'' \<Longrightarrow> getp ?e ''type'' = Str ''tumble''
           \<Longrightarrow> \<not> nullish (getp ?e ''data'')" and
      b3: "truthy ?e \<Longrightarrow> getp ?e ''type'' \<noteq> Str ''values'' \<Longrightarrow> getp ?e ''type'' \<noteq> Str ''tumble''
           \<Longrightarrow> getp ?e ''type'' = Str ''generator'' \<Longrightarrow> isArray (getp ?e ''generators'')" and
      b4: "truthy ?e \<Longrightarrow> getp ?e ''type'' \<noteq> Str ''values'' \<Longrightarrow> getp ?e ''type'' \<noteq> Str ''tumble''
           \<Longrightarrow> getp ?e ''type'' = Str ''generator'' \<Longrightarrow> text_or_absent (getp ?e ''keyword'')"
      by (auto simp: body_ok_def split: if_splits)
    have b5: "getp ?e ''type'' = Str ''generator'' \<Longrightarrow> text_or_absent (getp ?e ''type'')"
      by (simp add: text_or_absent_def)
    from hints have h1: "truthy ?th \<Longrightarrow> text_or_absent (getp ?th ''keyword'')"
      by (auto simp: hints_ok_def)
    note h2 = hints_map_ok [OF ex idt hints]
    show ?thesis
      unfolding tableToSQL_def Let_def
      by (simp only: propOf_ok [OF n] ut False Option.bind.simps if_False)
        (intro ok_bind ok_if ok_and_then idt ex lit vals ok_toUpper pre suf
          temporalTableToSQL_ok tmp ok_connector text_AS
          operatorToSQL_ok col bin call_split_ok vtext ok_traverse b1
          tableTumbleToSQL_ok itv b2 generateVirtualTable_ok ctv clist b3 b4 b5
          truthy_not_nullish h1 h2; simp)
  qed
qed

lemma joinClause_ok:
  assumes ex: "\<And>v. exprToSQL E v \<noteq> None" and idt: "\<And>v. identifierToSql E v \<noteq> None"
    and col: "\<And>v. columnRefToSQL E v \<noteq> None" and bin: "\<And>v. binaryToSQL E v \<noteq> None"
    and itv: "\<And>v. intervalToSQL E v \<noteq> None" and lit: "\<And>v. literalToSQL E v \<noteq> None"
    and vals: "\<And>v. valuesToSQL E v \<noteq> None" and ctv: "\<And>v. commonTypeValue E v \<noteq> None"
    and vtext: "\<And>v r. valuesToSQL E v = Some r \<Longrightarrow> isString r"
    and clist: "\<And>v r. commonTypeValue E v = Some r \<Longrightarrow> isArray r"
    and ok: "join_ok j"
  shows "joinClause E j \<noteq> None"
proof -
  from ok have r: "reference_ok j" and jn: "text_or_absent (getp j ''join'')"
    and us: "truthy (getp j ''using'') \<Longrightarrow> isArray (getp j ''using'')"
    by (auto simp: join_ok_def)
  from r have n: "\<not> nullish j" by (simp add: reference_ok_def)
  have t: "tableToSQL E j \<noteq> None"
    by (rule tableToSQL_ok; (rule ex idt col bin itv lit vals ctv r | erule vtext clist))
  show ?thesis
    unfolding joinClause_def
    by (simp only: propOf_ok [OF n] Option.bind.simps)
      (intro ok_bind ok_if ok_toUpper jn t ok_connector ex text_AS ok_js_map idt us; simp)
qed

lemma tablesToSQL_ok:
  assumes ex: "\<And>v. exprToSQL E v \<noteq> None" and idt: "\<And>v. identifierToSql E v \<noteq> None"
    and col: "\<And>v. columnRefToSQL E v \<noteq> None" and bin: "\<And>v. binaryToSQL E v \<noteq> None"
    and itv: "\<And>v. intervalToSQL E v \<noteq> None" and lit: "\<And>v. literalToSQL E v \<noteq> None"
    and vals: "\<And>v. valuesToSQL E v \<noteq> None" and ctv: "\<And>v. commonTypeValue E v \<noteq> None"
    and vtext: "\<And>v r. valuesToSQL E v = Some r \<Longrightarrow> isString r"
    and clist: "\<And>v r. commonTypeValue E v = Some r \<Longrightarrow> isArray r"
  shows "chain_ok c \<Longrightarrow> tablesToSQL E c \<noteq> None"
proof (induction c rule: chain_ok.induct)
  case (1 tables)
  show ?case
  proof (cases "truthy tables")
    case False
    then show ?thesis by (simp add: tablesToSQL_absent)
  next
    case True
    show ?thesis
    proof (cases "isArray tables")
      case False
      with True "1.prems" have "chain_ok (getp tables ''expr'')"
        by (subst (asm) chain_ok.simps) simp
      with "1.IH" True False have "tablesToSQL E (getp tables ''expr'') \<noteq> None" by simp
      then show ?thesis
        by (subst tablesToSQL_wrapper [OF True False]) (intro ok_bind ok_if; simp)
    next
      case isArr: True
      then obtain xs where xs: "tables = Arr xs" by (cases tables) auto
      with "1.prems" obtain b js where bjs: "xs = b # js" and b: "\<not> nullish b"
        and rest: "getp b ''type'' = Str ''dual'' \<or> (reference_ok b \<and> list_all join_ok js)"
        by (subst (asm) chain_ok.simps) (cases xs; simp)
      have "tablesToSQL E (Arr (b # js)) \<noteq> None"
      proof (cases "getp b ''type'' = Str ''dual''")
        case True
        with b show ?thesis by (simp add: tablesToSQL_Cons propOf_def)
      next
        case False
        with rest have rb: "reference_ok b" and rj: "list_all join_ok js" by simp_all
        have "traverse (joinClause E) js \<noteq> None"
        proof (rule ok_traverse)
          fix x assume "x \<in> set js"
          with rj have jx: "join_ok x" by (simp add: list_all_iff)
          show "joinClause E x \<noteq> None"
            by (rule joinClause_ok; (rule ex idt col bin itv lit vals ctv jx | erule vtext clist))
        qed
        moreover have "tableToSQL E b \<noteq> None"
          by (rule tableToSQL_ok; (rule ex idt col bin itv lit vals ctv rb | erule vtext clist))
        ultimately show ?thesis
          using False
          by (simp only: tablesToSQL_not_dual [OF False]) (intro ok_bind; simp)
      qed
      with xs bjs show ?thesis by simp
    qed
  qed
qed

lemma tableOptionToSQL_ok:
  assumes ex: "\<And>v. exprToSQL E v \<noteq> None" and lit: "\<And>v. literalToSQL E v \<noteq> None"
    and ok: "option_ok opt"
  shows "tableOptionToSQL E opt \<noteq> None"
proof -
  from ok obtain k where k: "getp opt ''keyword'' = Str k"
    by (cases "getp opt ''keyword''") (auto simp: option_ok_def)
  then have n: "\<not> nullish opt" using getp_Str_not_nullish by blast
  have uk: "toUpperCase (Str k) = Some (Str (upper k))"
    by (simp add: toUpperCase_def)
  from ok k have cl: "k = ''cluster by'' \<Longrightarrow> isArray (getp opt ''value'')"
    by (auto simp: option_ok_def split: if_splits)
  have items: "js_map (\<lambda>tableOptionItem. do {
                     k \<leftarrow> propOf tableOptionItem ''keyword'';
                     s \<leftarrow> propOf tableOptionItem ''symbol'';
                     v \<leftarrow> propOf tableOptionItem ''value'';
                     e \<leftarrow> exprToSQL E v;
                     Some (Str (js_join '' '' [k, s, e]))
                   }) (getp opt ''value'') \<noteq> None" if "k = ''options''"
  proof -
    from ok k that obtain xs where xs: "getp opt ''value'' = Arr xs"
      and all: "list_all (\<lambda>i. \<not> nullish i) xs"
      by (cases "getp opt ''value''") (auto simp: option_ok_def)
    show ?thesis
      unfolding xs js_map_def jsval.case
    proof (rule ok_traverse)
      fix x assume "x \<in> set xs"
      with all have nx: "\<not> nullish x" by (simp add: list_all_iff)
      show "(do {
                     k \<leftarrow> propOf x ''keyword'';
                     s \<leftarrow> propOf x ''symbol'';
                     v \<leftarrow> propOf x ''value'';
                     e \<leftarrow> exprToSQL E v;
                     Some (Str (js_join '' '' [k, s, e]))
                   }) \<noteq> None"
        by (simp only: propOf_ok [OF nx] Option.bind.simps) (intro ok_bind ex; simp)
    qed
  qed
  show ?thesis
    unfolding tableOptionToSQL_def Let_def
    by (simp only: propOf_ok [OF n] k uk Option.bind.simps jsval.inject)
      (intro ok_bind ok_if lit ex items ok_js_map cl; simp)
qed

lemmas wf_defs = text_or_absent_def temporal_ok_def hint_ok_def hints_ok_def body_ok_def
  offset_ok_def reference_ok_def join_ok_def option_ok_def

text \<open>
  C2 claims that no input node, however malformed, makes a renderer raise. It fails: a
  table-hint node and a table-option node without a keyword, a temporal table without its
  \<open>expr\<close> (alone and inside a table reference) and an empty chain each raise a TypeError.
\<close>

theorem lenient_counterexample:
  "tableHintToSQL plain (Obj []) = None \<and>
   tableOptionToSQL plain (Obj []) = None \<and>
   temporalTableToSQL plain (Obj [(''keyword'', Str ''for_system_time'')]) = None \<and>
   tableToSQL plain (Obj [(''table'', Str ''t''),
      (''temporal_table'', Obj [(''keyword'', Str ''for_system_time'')])]) = None \<and>
   tablesToSQL plain (Arr []) = None"
  by (simp add: tablesToSQL_Nil renderer_defs helper_defs plain_defs Let_def)

text \<open>
  C2, amended. The renderers do not raise on an absent node (\<^verbatim>\<open>operatorToSQL\<close>,
  \<^verbatim>\<open>tableHintToSQL\<close> and \<^verbatim>\<open>temporalTableToSQL\<close> return nothing, \<^verbatim>\<open>tablesToSQL\<close> the empty text)
  or on an unknown discriminant (\<^verbatim>\<open>operatorToSQL\<close> and \<^verbatim>\<open>temporalTableOptionToSQL\<close> return the
  empty text). With collaborators that never raise, a VALUES renderer that returns text
  and a triple renderer that returns a list, they do not raise on a node whose
  dereferenced parts are there, whatever else is missing or unrecognised:
  \<^verbatim>\<open>operatorToSQL\<close> on any node; \<^verbatim>\<open>temporalTableOptionToSQL\<close> on any node but \<open>undefined\<close> and
  \<open>null\<close>; \<^verbatim>\<open>temporalTableToSQL\<close> on a node whose keyword is a text or absent and whose
  \<open>expr\<close> is not \<open>undefined\<close> or \<open>null\<close> (\<open>temporal_ok\<close>); \<^verbatim>\<open>tableHintToSQL\<close> on a node whose
  keyword is a text, with a list of index columns for \<^verbatim>\<open>forceseek\<close> and, for \<^verbatim>\<open>index\<close>, a
  prefix that is a text or absent and a list \<open>expr\<close> where \<open>parentheses\<close> is set
  (\<open>hint_ok\<close>); \<^verbatim>\<open>tableOptionToSQL\<close> on a node whose keyword is a text, with a list of
  entries for \<^verbatim>\<open>options\<close> and a list for \<^verbatim>\<open>cluster by\<close> (\<open>option_ok\<close>); \<^verbatim>\<open>tableToSQL\<close> on a
  node that is not \<open>undefined\<close> or \<open>null\<close> and whose type tag is a text or absent, with, for
  UNNEST, an offset keyword that is a text or absent and, for any other reference, a prefix
  and suffix that are texts or absent, a derived-table body with the parts its type reads, a
  temporal table and hints as above (\<open>reference_ok\<close>); \<^verbatim>\<open>tablesToSQL\<close> on a wrapper around
  such a chain and on a non-empty list whose first entry is of type \<^verbatim>\<open>dual\<close> or such a
  reference followed by such references with a join keyword that is a text or absent and
  a \<open>using\<close> that is a list or absent (\<open>chain_ok\<close>). They raise where a part that the code
  dereferences is missing: \<^verbatim>\<open>tableHintToSQL\<close> on a present node and \<^verbatim>\<open>tableOptionToSQL\<close> on any
  node whose keyword is no string, \<^verbatim>\<open>temporalTableToSQL\<close> on a present node whose \<open>expr\<close> is
  \<open>undefined\<close> or \<open>null\<close>, \<^verbatim>\<open>tableToSQL\<close> and \<^verbatim>\<open>temporalTableOptionToSQL\<close> on \<open>undefined\<close> or
  \<open>null\<close>, \<^verbatim>\<open>tablesToSQL\<close> on the empty array.
\<close>

theorem lenient_where_guarded:
  "(\<not> truthy v \<longrightarrow>
      operatorToSQL E v = Some Undefined \<and> tableHintToSQL E v = Some Undefined \<and>
      temporalTableToSQL E v = Some Undefined \<and> tablesToSQL E v = Some (Str [])) \<and>
   (truthy x \<and> getp x ''type'' \<notin> {Str ''pivot'', Str ''unpivot''}
      \<longrightarrow> operatorToSQL E x = Some (Str [])) \<and>
   (\<not> nullish stmt \<and>
    getp stmt ''keyword'' \<notin> {Str ''as'', Str ''from_to'', Str ''between_and'', Str ''contained''}
      \<longrightarrow> temporalTableOptionToSQL E stmt = Some (Str [])) \<and>
   ((\<forall>u. binaryToSQL E u \<noteq> None \<and> columnRefToSQL E u \<noteq> None \<and> exprToSQL E u \<noteq> None \<and>
         valuesToSQL E u \<noteq> None \<and> intervalToSQL E u \<noteq> None \<and> commonTypeValue E u \<noteq> None \<and>
         identifierToSql E u \<noteq> None \<and> literalToSQL E u \<noteq> None) \<and>
    (\<forall>u r. valuesToSQL E u = Some r \<longrightarrow> isString r) \<and>
    (\<forall>u r. commonTypeValue E u = Some r \<longrightarrow> isArray r)
      \<longrightarrow> operatorToSQL E x \<noteq> None \<and>
          (\<not> nullish stmt \<longrightarrow> temporalTableOptionToSQL E stmt \<noteq> None) \<and>
          (temporal_ok tt \<longrightarrow> temporalTableToSQL E tt \<noteq> None) \<and>
          (hint_ok h \<longrightarrow> tableHintToSQL E h \<noteq> None) \<and>
          (option_ok opt \<longrightarrow> tableOptionToSQL E opt \<noteq> None) \<and>
          (reference_ok n \<longrightarrow> tableToSQL E n \<noteq> None) \<and>
          (chain_ok c \<longrightarrow> tablesToSQL E c \<noteq> None)) \<and>
   (truthy h' \<and> \<not> isString (getp h' ''keyword'') \<longrightarrow> tableHintToSQL E h' = None) \<and>
   (\<not> isString (getp opt' ''keyword'') \<longrightarrow> tableOptionToSQL E opt' = None) \<and>
   (truthy tt' \<and> nullish (getp tt' ''expr'') \<longrightarrow> temporalTableToSQL E tt' = None) \<and>
   (nullish w \<longrightarrow> tableToSQL E w = None \<and> temporalTableOptionToSQL E w = None) \<and>
   tablesToSQL E (Arr []) = None"
proof -
  have guarded: "operatorToSQL E x \<noteq> None \<and>
          (\<not> nullish stmt \<longrightarrow> temporalTableOptionToSQL E stmt \<noteq> None) \<and>
          (temporal_ok tt \<longrightarrow> temporalTableToSQL E tt \<noteq> None) \<and>
          (hint_ok h \<longrightarrow> tableHintToSQL E h \<noteq> None) \<and>
          (option_ok opt \<longrightarrow> tableOptionToSQL E opt \<noteq> None) \<and>
          (reference_ok n \<longrightarrow> tableToSQL E n \<noteq> None) \<and>
          (chain_ok c \<longrightarrow> tablesToSQL E c \<noteq> None)"
    if total: "\<forall>u. binaryToSQL E u \<noteq> None \<and> columnRefToSQL E u \<noteq> None \<and> exprToSQL E u \<noteq> None \<and>
         valuesToSQL E u \<noteq> None \<and> intervalToSQL E u \<noteq> None \<and> commonTypeValue E u \<noteq> None \<and>
         identifierToSql E u \<noteq> None \<and> literalToSQL E u \<noteq> None"
      and vt: "\<forall>u r. valuesToSQL E u = Some r \<longrightarrow> isString r"
      and cl: "\<forall>u r. commonTypeValue E u = Some r \<longrightarrow> isArray r"
  proof -
    from total have ex: "\<And>v. exprToSQL E v \<noteq> None" and idt: "\<And>v. identifierToSql E v \<noteq> None"
      and col: "\<And>v. columnRefToSQL E v \<noteq> None" and bin: "\<And>v. binaryToSQL E v \<noteq> None"
      and itv: "\<And>v. intervalToSQL E v \<noteq> None" and lit: "\<And>v. literalToSQL E v \<noteq> None"
      and vals: "\<And>v. valuesToSQL E v \<noteq> None" and ctv: "\<And>v. commonTypeValue E v \<noteq> None"
      by simp_all
    from vt have vtext: "\<And>v r. valuesToSQL E v = Some r \<Longrightarrow> isString r" by blast
    from cl have clist: "\<And>v r. commonTypeValue E v = Some r \<Longrightarrow> isArray r" by blast
    have "tableToSQL E n \<noteq> None" if "reference_ok n"
      by (rule tableToSQL_ok; (rule ex idt col bin itv lit vals ctv that | erule vtext clist))
    moreover have "tablesToSQL E c \<noteq> None" if "chain_ok c"
      by (rule tablesToSQL_ok; (rule ex idt col bin itv lit vals ctv that | erule vtext clist))
    ultimately show ?thesis
      using operatorToSQL_ok [OF ex col bin idt]
        temporalTableOptionToSQL_ok [OF ex]
        temporalTableToSQL_ok [OF ex]
        tableHintToSQL_ok [OF ex idt]
        tableOptionToSQL_ok [OF ex lit]
      by blast
  qed
  show ?thesis
    using guarded
    by (simp add: operatorToSQL_absent tableHintToSQL_absent temporalTableToSQL_absent
      tablesToSQL_absent operatorToSQL_unknown temporal_unknown tableHintToSQL_no_keyword
      tableOptionToSQL_no_keyword temporalTableToSQL_no_expr tableToSQL_nullish
      temporalTableOptionToSQL_nullish tablesToSQL_Nil)
qed

text \<open>
  A reference with sample, temporal clause, alias, unknown operator and hint, a wrapped
  chain with a join, and a hint, an option and a temporal table on their own are
  well-formed and render; the nodes of the counterexample raise.
\<close>

theorem lenient_where_guarded_witness:
  "operatorToSQL plain_text Undefined = Some Undefined \<and>
   tableHintToSQL plain_text Undefined = Some Undefined \<and>
   temporalTableToSQL plain_text Undefined = Some Undefined \<and>
   tablesToSQL plain_text Undefined = Some (Str []) \<and>
   operatorToSQL plain_text (Obj [(''type'', Str ''rollup'')]) = Some (Str []) \<and>
   temporalTableOptionToSQL plain_text (Obj [(''keyword'', Str ''all'')]) = Some (Str []) \<and>
   temporal_ok (Obj [(''keyword'', Str ''for_system_time''),
      (''expr'', Obj [(''keyword'', Str ''as''), (''of'', Str ''2024-01-01'')])]) \<and>
   temporalTableToSQL plain_text (Obj [(''keyword'', Str ''for_system_time''),
      (''expr'', Obj [(''keyword'', Str ''as''), (''of'', Str ''2024-01-01'')])])
     = Some (Str ''FOR_SYSTEM_TIME AS OF 2024-01-01'') \<and>
   hint_ok (Obj [(''keyword'', Str ''index''), (''prefix'', Str ''force''), (''parentheses'', Bool True),
      (''expr'', Arr [Str ''i1'', Str ''i2''])]) \<and>
   tableHintToSQL plain_text (Obj [(''keyword'', Str ''index''), (''prefix'', Str ''force''), (''parentheses'', Bool True),
      (''expr'', Arr [Str ''i1'', Str ''i2''])])
     = Some (Str ''FORCE INDEX (i1, i2)'') \<and>
   option_ok (Obj [(''keyword'', Str ''engine''), (''symbol'', Str ''=''), (''value'', Str ''InnoDB'')]) \<and>
   tableOptionToSQL plain_text (Obj [(''keyword'', Str ''engine''), (''symbol'', Str ''=''), (''value'', Str ''InnoDB'')])
     = Some (Str ''ENGINE = InnoDB'') \<and>
   reference_ok (Obj [(''db'', Str ''shop''), (''table'', Str ''orders''), (''as'', Str ''o''),
      (''tablesample'', Obj [(''expr'', Str ''SYSTEM (10)'')]),
      (''temporal_table'', Obj [(''keyword'', Str ''for_system_time''),
         (''expr'', Obj [(''keyword'', Str ''as''), (''of'', Str ''2024-01-01'')])]),
      (''operator'', Obj [(''type'', Str ''rollup'')]),
      (''table_hint'', Obj [(''keyword'', Str ''with''),
         (''expr'', Arr [Obj [(''keyword'', Str ''nolock''), (''expr'', Str ''NOLOCK'')]])])]) \<and>
   tableToSQL plain_text (Obj [(''db'', Str ''shop''), (''table'', Str ''orders''), (''as'', Str ''o''),
      (''tablesample'', Obj [(''expr'', Str ''SYSTEM (10)'')]),
      (''temporal_table'', Obj [(''keyword'', Str ''for_system_time''),
         (''expr'', Obj [(''keyword'', Str ''as''), (''of'', Str ''2024-01-01'')])]),
      (''operator'', Obj [(''type'', Str ''rollup'')]),
      (''table_hint'', Obj [(''keyword'', Str ''with''),
         (''expr'', Arr [Obj [(''keyword'', Str ''nolock''), (''expr'', Str ''NOLOCK'')]])])])
     = Some (Str ''shop.orders TABLESAMPLE SYSTEM (10) FOR_SYSTEM_TIME AS OF 2024-01-01 AS o WITH (NOLOCK)'') \<and>
   chain_ok (Obj [(''parentheses'', Bool True), (''expr'', Arr [Obj [(''table'', Str ''a'')],
      Obj [(''join'', Str ''left join''), (''table'', Str ''c''), (''using'', Arr [Str ''id''])]])]) \<and>
   tablesToSQL plain_text (Obj [(''parentheses'', Bool True), (''expr'', Arr [Obj [(''table'', Str ''a'')],
      Obj [(''join'', Str ''left join''), (''table'', Str ''c''), (''using'', Arr [Str ''id''])]])])
     = Some (Str ''(a LEFT JOIN c USING (id))'') \<and>
   tableHintToSQL plain_text (Obj []) = None \<and>
   tableOptionToSQL plain_text (Obj []) = None \<and>
   temporalTableToSQL plain_text (Obj [(''keyword'', Str ''for_system_time'')]) = None \<and>
   tableToSQL plain_text Null = None \<and>
   temporalTableOptionToSQL plain_text Null = None \<and>
   tablesToSQL plain_text (Arr []) = None"
  using lenient_where_guarded
    [of Undefined plain_text "Obj [(''type'', Str ''rollup'')]" "Obj [(''keyword'', Str ''all'')]"
      "Obj [(''keyword'', Str ''for_system_time''),
      (''expr'', Obj [(''keyword'', Str ''as''), (''of'', Str ''2024-01-01'')])]"
      "Obj [(''keyword'', Str ''index''), (''prefix'', Str ''force''), (''parentheses'', Bool True),
      (''expr'', Arr [Str ''i1'', Str ''i2''])]"
      "Obj [(''keyword'', Str ''engine''), (''symbol'', Str ''=''), (''value'', Str ''InnoDB'')]"
      "Obj [(''db'', Str ''shop''), (''table'', Str ''orders''), (''as'', Str ''o''),
      (''tablesample'', Obj [(''expr'', Str ''SYSTEM (10)'')]),
      (''temporal_table'', Obj [(''keyword'', Str ''for_system_time''),
         (''expr'', Obj [(''keyword'', Str ''as''), (''of'', Str ''2024-01-01'')])]),
      (''operator'', Obj [(''type'', Str ''rollup'')]),
      (''table_hint'', Obj [(''keyword'', Str ''with''),
         (''expr'', Arr [Obj [(''keyword'', Str ''nolock''), (''expr'', Str ''NOLOCK'')]])])]"
      "Obj [(''parentheses'', Bool True), (''expr'', Arr [Obj [(''table'', Str ''a'')],
      Obj [(''join'', Str ''left join''), (''table'', Str ''c''), (''using'', Arr [Str ''id''])]])]"
      "Obj []" "Obj []" "Obj [(''keyword'', Str ''for_system_time'')]" Null]
  by (simp add: tablesToSQL_Nil tablesToSQL_Cons tablesToSQL_wrapper chain_ok.simps renderer_defs
      helper_defs plain_defs plain_text_def wf_defs Let_def)

end
